theory Spec2Isabelle
  imports Main "HOL-Library.Word" "HOL-Library.List_Lexorder" "HOL-Library.Char_ord"
begin

section \<open>The clinical-coordination canister (src/dfinity_js_backend/src/index.ts)\<close>

text \<open>
  The sources hold three versions of the canister definition: one with the five create
  methods only, one that adds the \<^verbatim>\<open>getXById\<close>, \<^verbatim>\<open>getXByOwner\<close> and \<^verbatim>\<open>getAllX\<close>
  queries, and the complete one (the second definition of index.ts), which adds the
  update, delete and search methods. The methods they share are the same in each. The
  model follows the complete definition.
\<close>

subsection \<open>Candid types\<close>

text \<open>
  \<^verbatim>\<open>text\<close> is a string, \<^verbatim>\<open>nat64\<close> a 64-bit unsigned integer. A \<^verbatim>\<open>Principal\<close> is
  represented by its textual form, which identifies it; the source compares principals
  through \<^verbatim>\<open>toText()\<close> only.
\<close>

type_synonym "text" = string
type_synonym nat64 = "64 word"

datatype Principal = Principal (toText: "text")

record Department =
  id :: "text"
  name :: "text"

record Doctor =
  id :: "text"
  owner :: Principal
  name :: "text"
  department_id :: "text"
  image :: "text"

record Patient =
  id :: "text"
  owner :: Principal
  name :: "text"
  age :: nat64

record Consultation =
  id :: "text"
  patient_id :: "text"
  problem :: "text"
  department_id :: "text"

record Chat =
  id :: "text"
  patient_id :: "text"
  doctor_id :: "text"
  message :: "text"
  timestamp :: "text"

datatype Message =
    Success "text"
  | Error "text"
  | NotFound "text"
  | InvalidPayload "text"
  | PaymentFailed "text"
  | PaymentCompleted "text"

record CreateDepartmentPayload =
  name :: "text"

record CreateDoctorPayload =
  name :: "text"
  department_id :: "text"
  image :: "text"

record CreatePatientPayload =
  name :: "text"
  age :: nat64

record CreateConsultationPayload =
  patient_id :: "text"
  problem :: "text"
  department_id :: "text"

record CreateChatPayload =
  patient_id :: "text"
  doctor_id :: "text"
  message :: "text"
  timestamp :: "text"

subsection \<open>Storage\<close>

text \<open>
  A \<^verbatim>\<open>StableBTreeMap\<close> keeps one entry per key and lists its entries in ascending key
  order. It is modelled as an association list in ascending key order. The B-tree orders
  keys by their stored bytes; for keys of one length, as the identifiers \<^verbatim>\<open>uuidv4()\<close>
  returns are, that is the bytewise lexicographic order of the strings, which is the order
  on \<^typ>\<open>string\<close> used here.
  \<^verbatim>\<open>get\<close> returns \<^verbatim>\<open>Opt\<close>: \<open>None\<close> or \<open>Some\<close> value. \<^verbatim>\<open>insert\<close> overwrites the value
  of a key that is present.
\<close>

type_synonym 'v StableBTreeMap = "(text \<times> 'v) list"

fun get_map :: "'v StableBTreeMap \<Rightarrow> text \<Rightarrow> 'v option" where
  "get_map [] k = None"
| "get_map ((k', v) # m) k = (if k = k' then Some v else get_map m k)"

fun insert_map :: "text \<Rightarrow> 'v \<Rightarrow> 'v StableBTreeMap \<Rightarrow> 'v StableBTreeMap" where
  "insert_map k v [] = [(k, v)]"
| "insert_map k v ((k', v') # m) =
     (if k = k' then (k, v) # m
      else if k < k' then (k, v) # (k', v') # m
      else (k', v') # insert_map k v m)"

fun remove_map :: "text \<Rightarrow> 'v StableBTreeMap \<Rightarrow> 'v StableBTreeMap" where
  "remove_map k [] = []"
| "remove_map k ((k', v') # m) = (if k = k' then m else (k', v') # remove_map k m)"

definition values_map :: "'v StableBTreeMap \<Rightarrow> 'v list" where
  "values_map m = map snd m"

definition wf_map :: "'v StableBTreeMap \<Rightarrow> bool" where
  "wf_map m = sorted_wrt (<) (map fst m)"

text \<open>The five module-level stores, with memory ids 0 to 4.\<close>

record state =
  Departments :: "Department StableBTreeMap"
  Doctors :: "Doctor StableBTreeMap"
  Patients :: "Patient StableBTreeMap"
  Consultations :: "Consultation StableBTreeMap"
  Chats :: "Chat StableBTreeMap"

definition init :: state where
  "init = \<lparr>Departments = [], Doctors = [], Patients = [], Consultations = [], Chats = []\<rparr>"

definition wf_state :: "state \<Rightarrow> bool" where
  "wf_state s \<longleftrightarrow>
     wf_map (Departments s) \<and> wf_map (Doctors s) \<and> wf_map (Patients s) \<and>
     wf_map (Consultations s) \<and> wf_map (Chats s)"

text \<open>
  What the hosting runtime supplies to one call: the caller \<^verbatim>\<open>ic.caller()\<close>, and the
  identifier that \<^verbatim>\<open>uuidv4()\<close> returns in this call (a method calls it at most once).
  Every method receives both, whether its body reads them or not.
\<close>

record runtime =
  caller :: Principal
  uuidv4 :: "text"

subsection \<open>Department\<close>

definition createDepartment ::
  "runtime \<Rightarrow> state \<Rightarrow> CreateDepartmentPayload \<Rightarrow> (Message + Department) \<times> state" where
  "createDepartment rt s payload =
     (if CreateDepartmentPayload.name payload = [] then
        (Inl (InvalidPayload ''Missing required fields''), s)
      else
        let departmentId = uuidv4 rt;
            department = \<lparr>Department.id = departmentId,
                          Department.name = CreateDepartmentPayload.name payload\<rparr>
        in (Inr department,
            s\<lparr>Departments := insert_map departmentId department (Departments s)\<rparr>))"

definition getDepartmentById :: "runtime \<Rightarrow> state \<Rightarrow> text \<Rightarrow> Message + Department" where
  "getDepartmentById rt s departmentId =
     (case get_map (Departments s) departmentId of
        None \<Rightarrow> Inl (NotFound (''Department with id='' @ departmentId @ '' not found''))
      | Some department \<Rightarrow> Inr department)"

definition getAllDepartments :: "runtime \<Rightarrow> state \<Rightarrow> Message + Department list" where
  "getAllDepartments rt s =
     (let departments = values_map (Departments s)
      in if length departments = 0 then Inl (NotFound ''No departments found'')
         else Inr departments)"

definition deleteDepartment ::
  "runtime \<Rightarrow> state \<Rightarrow> text \<Rightarrow> (Message + Message) \<times> state" where
  "deleteDepartment rt s departmentId =
     (case get_map (Departments s) departmentId of
        None \<Rightarrow> (Inl (NotFound (''Department with id='' @ departmentId @ '' not found'')), s)
      | Some department \<Rightarrow>
          (Inr (Success (''Department with id='' @ departmentId @ '' deleted successfully'')),
           s\<lparr>Departments := remove_map departmentId (Departments s)\<rparr>))"

subsection \<open>Doctor\<close>

definition createDoctor ::
  "runtime \<Rightarrow> state \<Rightarrow> CreateDoctorPayload \<Rightarrow> (Message + Doctor) \<times> state" where
  "createDoctor rt s payload =
     (if CreateDoctorPayload.name payload = [] \<or> CreateDoctorPayload.department_id payload = []
         \<or> CreateDoctorPayload.image payload = [] then
        (Inl (InvalidPayload ''Missing required fields''), s)
      else
        let doctorProfiles = values_map (Doctors s);
            nameExists = list_ex (\<lambda>profile.
                Doctor.name profile = CreateDoctorPayload.name payload \<and>
                Doctor.department_id profile = CreateDoctorPayload.department_id payload)
              doctorProfiles
        in if nameExists then
             (Inl (InvalidPayload ''Doctor with this name already exists in the department''), s)
           else
             let doctorId = uuidv4 rt;
                 doctor = \<lparr>Doctor.id = doctorId,
                           Doctor.owner = caller rt,
                           Doctor.name = CreateDoctorPayload.name payload,
                           Doctor.department_id = CreateDoctorPayload.department_id payload,
                           Doctor.image = CreateDoctorPayload.image payload\<rparr>
             in (Inr doctor, s\<lparr>Doctors := insert_map doctorId doctor (Doctors s)\<rparr>))"

definition getDoctorById :: "runtime \<Rightarrow> state \<Rightarrow> text \<Rightarrow> Message + Doctor" where
  "getDoctorById rt s doctorId =
     (case get_map (Doctors s) doctorId of
        None \<Rightarrow> Inl (NotFound (''Doctor with id='' @ doctorId @ '' not found''))
      | Some doctor \<Rightarrow> Inr doctor)"

definition getDoctorByOwner :: "runtime \<Rightarrow> state \<Rightarrow> Message + Doctor" where
  "getDoctorByOwner rt s =
     (let doctorProfiles =
            filter (\<lambda>doctor. toText (Doctor.owner doctor) = toText (caller rt))
              (values_map (Doctors s))
      in if length doctorProfiles = 0 then
           Inl (NotFound (''Doctor profile for owner='' @ toText (caller rt) @ '' not found''))
         else Inr (doctorProfiles ! 0))"

definition getAllDoctors :: "runtime \<Rightarrow> state \<Rightarrow> Message + Doctor list" where
  "getAllDoctors rt s =
     (let doctors = values_map (Doctors s)
      in if length doctors = 0 then Inl (NotFound ''No doctors found'') else Inr doctors)"

subsection \<open>Patient\<close>

text \<open>
  \<^verbatim>\<open>payload.age === undefined\<close> is never true of a decoded \<^verbatim>\<open>nat64\<close> field, so only the
  name decides the validation.
\<close>

definition createPatient ::
  "runtime \<Rightarrow> state \<Rightarrow> CreatePatientPayload \<Rightarrow> (Message + Patient) \<times> state" where
  "createPatient rt s payload =
     (if CreatePatientPayload.name payload = [] then
        (Inl (InvalidPayload ''Missing required fields''), s)
      else
        let patientId = uuidv4 rt;
            patient = \<lparr>Patient.id = patientId,
                       Patient.owner = caller rt,
                       Patient.name = CreatePatientPayload.name payload,
                       Patient.age = CreatePatientPayload.age payload\<rparr>
        in (Inr patient, s\<lparr>Patients := insert_map patientId patient (Patients s)\<rparr>))"

definition getPatientById :: "runtime \<Rightarrow> state \<Rightarrow> text \<Rightarrow> Message + Patient" where
  "getPatientById rt s patientId =
     (case get_map (Patients s) patientId of
        None \<Rightarrow> Inl (NotFound (''Patient with id='' @ patientId @ '' not found''))
      | Some patient \<Rightarrow> Inr patient)"

definition getPatientByOwner :: "runtime \<Rightarrow> state \<Rightarrow> Message + Patient" where
  "getPatientByOwner rt s =
     (let patientProfiles =
            filter (\<lambda>patient. toText (Patient.owner patient) = toText (caller rt))
              (values_map (Patients s))
      in if length patientProfiles = 0 then
           Inl (NotFound (''Patient profile for owner='' @ toText (caller rt) @ '' not found''))
         else Inr (patientProfiles ! 0))"

definition getAllPatients :: "runtime \<Rightarrow> state \<Rightarrow> Message + Patient list" where
  "getAllPatients rt s =
     (let patients = values_map (Patients s)
      in if length patients = 0 then Inl (NotFound ''No patients found'') else Inr patients)"

subsection \<open>Consultation\<close>

definition createConsultation ::
  "runtime \<Rightarrow> state \<Rightarrow> CreateConsultationPayload \<Rightarrow> (Message + Consultation) \<times> state" where
  "createConsultation rt s payload =
     (if CreateConsultationPayload.patient_id payload = []
         \<or> CreateConsultationPayload.problem payload = []
         \<or> CreateConsultationPayload.department_id payload = [] then
        (Inl (InvalidPayload ''Missing required fields''), s)
      else
        let consultationId = uuidv4 rt;
            consultation =
              \<lparr>Consultation.id = consultationId,
               Consultation.patient_id = CreateConsultationPayload.patient_id payload,
               Consultation.problem = CreateConsultationPayload.problem payload,
               Consultation.department_id = CreateConsultationPayload.department_id payload\<rparr>
        in (Inr consultation,
            s\<lparr>Consultations := insert_map consultationId consultation (Consultations s)\<rparr>))"

definition getConsultationById :: "runtime \<Rightarrow> state \<Rightarrow> text \<Rightarrow> Message + Consultation" where
  "getConsultationById rt s consultationId =
     (case get_map (Consultations s) consultationId of
        None \<Rightarrow> Inl (NotFound (''Consultation with id='' @ consultationId @ '' not found''))
      | Some consultation \<Rightarrow> Inr consultation)"

definition getAllConsultations :: "runtime \<Rightarrow> state \<Rightarrow> Message + Consultation list" where
  "getAllConsultations rt s =
     (let consultations = values_map (Consultations s)
      in if length consultations = 0 then Inl (NotFound ''No consultations found'')
         else Inr consultations)"

definition getConsultationHistoryByPatient ::
  "runtime \<Rightarrow> state \<Rightarrow> text \<Rightarrow> Message + Consultation list" where
  "getConsultationHistoryByPatient rt s patientId =
     (let consultations =
            filter (\<lambda>consultation. Consultation.patient_id consultation = patientId)
              (values_map (Consultations s))
      in if length consultations = 0 then
           Inl (NotFound (''No consultations found for patient id='' @ patientId))
         else Inr consultations)"

subsection \<open>Chat\<close>

definition createChat ::
  "runtime \<Rightarrow> state \<Rightarrow> CreateChatPayload \<Rightarrow> (Message + Chat) \<times> state" where
  "createChat rt s payload =
     (if CreateChatPayload.patient_id payload = [] \<or> CreateChatPayload.doctor_id payload = []
         \<or> CreateChatPayload.message payload = [] \<or> CreateChatPayload.timestamp payload = [] then
        (Inl (InvalidPayload ''Missing required fields''), s)
      else
        let chatId = uuidv4 rt;
            chat = \<lparr>Chat.id = chatId,
                    Chat.patient_id = CreateChatPayload.patient_id payload,
                    Chat.doctor_id = CreateChatPayload.doctor_id payload,
                    Chat.message = CreateChatPayload.message payload,
                    Chat.timestamp = CreateChatPayload.timestamp payload\<rparr>
        in (Inr chat, s\<lparr>Chats := insert_map chatId chat (Chats s)\<rparr>))"

definition getChatById :: "runtime \<Rightarrow> state \<Rightarrow> text \<Rightarrow> Message + Chat" where
  "getChatById rt s chatId =
     (case get_map (Chats s) chatId of
        None \<Rightarrow> Inl (NotFound (''Chat with id='' @ chatId @ '' not found''))
      | Some chat \<Rightarrow> Inr chat)"

definition getAllChats :: "runtime \<Rightarrow> state \<Rightarrow> Message + Chat list" where
  "getAllChats rt s =
     (let chats = values_map (Chats s)
      in if length chats = 0 then Inl (NotFound ''No chats found'') else Inr chats)"

subsection \<open>Update and delete\<close>

text \<open>
  \<^verbatim>\<open>{...patientOpt.Some, ...payload}\<close>: the fields of the payload overwrite those of the
  stored record. A payload is a \<^verbatim>\<open>CreatePatientPayload\<close> (name and age) or a
  \<^verbatim>\<open>CreateDoctorPayload\<close> (name, department_id and image).
\<close>

definition updatePatient ::
  "runtime \<Rightarrow> state \<Rightarrow> text \<Rightarrow> CreatePatientPayload \<Rightarrow> (Message + Patient) \<times> state" where
  "updatePatient rt s patientId payload =
     (case get_map (Patients s) patientId of
        None \<Rightarrow> (Inl (NotFound (''Patient with id='' @ patientId @ '' not found'')), s)
      | Some patient \<Rightarrow>
          let updatedPatient = patient\<lparr>Patient.name := CreatePatientPayload.name payload,
                                      Patient.age := CreatePatientPayload.age payload\<rparr>
          in (Inr updatedPatient,
              s\<lparr>Patients := insert_map patientId updatedPatient (Patients s)\<rparr>))"

definition deletePatient ::
  "runtime \<Rightarrow> state \<Rightarrow> text \<Rightarrow> (Message + Message) \<times> state" where
  "deletePatient rt s patientId =
     (case get_map (Patients s) patientId of
        None \<Rightarrow> (Inl (NotFound (''Patient with id='' @ patientId @ '' not found'')), s)
      | Some patient \<Rightarrow>
          (Inr (Success (''Patient with id='' @ patientId @ '' deleted successfully'')),
           s\<lparr>Patients := remove_map patientId (Patients s)\<rparr>))"

definition updateDoctor ::
  "runtime \<Rightarrow> state \<Rightarrow> text \<Rightarrow> CreateDoctorPayload \<Rightarrow> (Message + Doctor) \<times> state" where
  "updateDoctor rt s doctorId payload =
     (case get_map (Doctors s) doctorId of
        None \<Rightarrow> (Inl (NotFound (''Doctor with id='' @ doctorId @ '' not found'')), s)
      | Some doctor \<Rightarrow>
          let updatedDoctor =
                doctor\<lparr>Doctor.name := CreateDoctorPayload.name payload,
                       Doctor.department_id := CreateDoctorPayload.department_id payload,
                       Doctor.image := CreateDoctorPayload.image payload\<rparr>
          in (Inr updatedDoctor,
              s\<lparr>Doctors := insert_map doctorId updatedDoctor (Doctors s)\<rparr>))"

definition deleteDoctor ::
  "runtime \<Rightarrow> state \<Rightarrow> text \<Rightarrow> (Message + Message) \<times> state" where
  "deleteDoctor rt s doctorId =
     (case get_map (Doctors s) doctorId of
        None \<Rightarrow> (Inl (NotFound (''Doctor with id='' @ doctorId @ '' not found'')), s)
      | Some doctor \<Rightarrow>
          (Inr (Success (''Doctor with id='' @ doctorId @ '' deleted successfully'')),
           s\<lparr>Doctors := remove_map doctorId (Doctors s)\<rparr>))"

text \<open>
  \<^verbatim>\<open>updateDoctorAvailability\<close> builds the object
  \<^verbatim>\<open>{...doctorOpt.Some, available: availability}\<close>, a doctor with one more field. It then
  hands that object to \<^verbatim>\<open>Doctors.insert\<close> and to \<^verbatim>\<open>Ok\<close>. \<^verbatim>\<open>Doctors\<close> is
  \<^verbatim>\<open>StableBTreeMap(1, text, Doctor)\<close> and the method's result type is
  \<^verbatim>\<open>Result(Doctor, Message)\<close>: on both paths the object is serialised as a \<^verbatim>\<open>Doctor\<close>,
  the record type of lines 281 to 287 with the fields id, owner, name, department_id and
  image. \<open>asDoctor\<close> is that serialisation: it keeps the declared fields.
\<close>

record DoctorWithAvailable = Doctor +
  available :: bool

definition asDoctor :: "DoctorWithAvailable \<Rightarrow> Doctor" where
  "asDoctor obj =
     \<lparr>Doctor.id = Doctor.id obj, Doctor.owner = Doctor.owner obj, Doctor.name = Doctor.name obj,
      Doctor.department_id = Doctor.department_id obj, Doctor.image = Doctor.image obj\<rparr>"

definition updateDoctorAvailability ::
  "runtime \<Rightarrow> state \<Rightarrow> text \<Rightarrow> bool \<Rightarrow> (Message + Doctor) \<times> state" where
  "updateDoctorAvailability rt s doctorId availability =
     (case get_map (Doctors s) doctorId of
        None \<Rightarrow> (Inl (NotFound (''Doctor with id='' @ doctorId @ '' not found'')), s)
      | Some doctor \<Rightarrow>
          let updatedDoctor =
                \<lparr>Doctor.id = Doctor.id doctor, Doctor.owner = Doctor.owner doctor,
                 Doctor.name = Doctor.name doctor,
                 Doctor.department_id = Doctor.department_id doctor,
                 Doctor.image = Doctor.image doctor,
                 available = availability\<rparr>
          in (Inr (asDoctor updatedDoctor),
              s\<lparr>Doctors := insert_map doctorId (asDoctor updatedDoctor) (Doctors s)\<rparr>))"

subsection \<open>Search\<close>



















subsection \<open>Arguments on the wire\<close>

text \<open>
  A method declared \<^verbatim>\<open>update([text, CreatePatientPayload], ...)\<close> has its argument decoded
  as a \<^verbatim>\<open>CreatePatientPayload\<close> before the body runs. A record value sent by a client is
  a list of named fields. Decoding against a record type reads the declared fields and
  skips every other field; a declared field that is missing, or holds a value of another
  type, makes decoding fail (no declared field here is optional), and the call is rejected
  before the body runs: it returns no result and leaves the stores as they are. A rejected
  call is \<open>None\<close>.
\<close>

datatype CandidValue = Text "text" | Nat64 nat64 | PrincipalValue Principal | Bool bool

type_synonym CandidRecord = "(text \<times> CandidValue) list"

definition decode_CreatePatientPayload :: "CandidRecord \<Rightarrow> CreatePatientPayload option" where
  "decode_CreatePatientPayload arg =
     (case (map_of arg ''name'', map_of arg ''age'') of
        (Some (Text n), Some (Nat64 a)) \<Rightarrow>
          Some \<lparr>CreatePatientPayload.name = n, CreatePatientPayload.age = a\<rparr>
      | _ \<Rightarrow> None)"

definition decode_CreateDoctorPayload :: "CandidRecord \<Rightarrow> CreateDoctorPayload option" where
  "decode_CreateDoctorPayload arg =
     (case (map_of arg ''name'', map_of arg ''department_id'', map_of arg ''image'') of
        (Some (Text n), Some (Text d), Some (Text i)) \<Rightarrow>
          Some \<lparr>CreateDoctorPayload.name = n, CreateDoctorPayload.department_id = d,
                CreateDoctorPayload.image = i\<rparr>
      | _ \<Rightarrow> None)"

definition call_updatePatient ::
  "runtime \<Rightarrow> state \<Rightarrow> text \<Rightarrow> CandidRecord \<Rightarrow> ((Message + Patient) \<times> state) option" where
  "call_updatePatient rt s patientId arg =
     (case decode_CreatePatientPayload arg of
        None \<Rightarrow> None
      | Some payload \<Rightarrow> Some (updatePatient rt s patientId payload))"

definition call_updateDoctor ::
  "runtime \<Rightarrow> state \<Rightarrow> text \<Rightarrow> CandidRecord \<Rightarrow> ((Message + Doctor) \<times> state) option" where
  "call_updateDoctor rt s doctorId arg =
     (case decode_CreateDoctorPayload arg of
        None \<Rightarrow> None
      | Some payload \<Rightarrow> Some (updateDoctor rt s doctorId payload))"

subsection \<open>Reachable states\<close>

text \<open>
  The states the canister can be in: the empty stores, and what any state-changing
  method leaves behind, called by anyone with any argument.
\<close>

inductive reachable :: "state \<Rightarrow> bool" where
  reachable_init: "reachable init"
| reachable_createDepartment: "reachable s \<Longrightarrow> reachable (snd (createDepartment rt s dep))"
| reachable_createDoctor: "reachable s \<Longrightarrow> reachable (snd (createDoctor rt s doc))"
| reachable_createPatient: "reachable s \<Longrightarrow> reachable (snd (createPatient rt s pat))"
| reachable_createConsultation:
    "reachable s \<Longrightarrow> reachable (snd (createConsultation rt s con))"
| reachable_createChat: "reachable s \<Longrightarrow> reachable (snd (createChat rt s cha))"
| reachable_updatePatient: "reachable s \<Longrightarrow> reachable (snd (updatePatient rt s i pat))"
| reachable_updateDoctor: "reachable s \<Longrightarrow> reachable (snd (updateDoctor rt s i doc))"
| reachable_updateDoctorAvailability:
    "reachable s \<Longrightarrow> reachable (snd (updateDoctorAvailability rt s i b))"
| reachable_deletePatient: "reachable s \<Longrightarrow> reachable (snd (deletePatient rt s i))"
| reachable_deleteDoctor: "reachable s \<Longrightarrow> reachable (snd (deleteDoctor rt s i))"
| reachable_deleteDepartment: "reachable s \<Longrightarrow> reachable (snd (deleteDepartment rt s i))"

subsection \<open>Example values\<close>

text \<open>
  The values of the specification's end-to-end scenario, used where a theorem is
  instantiated: two callers, a department, a doctor and a patient of the first caller, a
  consultation and a chat message, with the payloads that create them.
\<close>

definition P1 :: Principal where
  "P1 = Principal ''2vxsx-fae''"

definition P2 :: Principal where
  "P2 = Principal ''rdmx6-jaaaa-aaaaa-aaadq-cai''"

definition cardiology_payload :: CreateDepartmentPayload where
  "cardiology_payload = \<lparr>CreateDepartmentPayload.name = ''Cardiology''\<rparr>"

definition cardiology :: Department where
  "cardiology = \<lparr>Department.id = ''D1'', Department.name = ''Cardiology''\<rparr>"

definition lee_payload :: CreateDoctorPayload where
  "lee_payload = \<lparr>CreateDoctorPayload.name = ''Dr. Lee'',
                   CreateDoctorPayload.department_id = ''D1'',
                   CreateDoctorPayload.image = ''img.png''\<rparr>"

definition dr_lee :: Doctor where
  "dr_lee = \<lparr>Doctor.id = ''Doc1'', Doctor.owner = P1, Doctor.name = ''Dr. Lee'',
              Doctor.department_id = ''D1'', Doctor.image = ''img.png''\<rparr>"

definition ann_payload :: CreatePatientPayload where
  "ann_payload = \<lparr>CreatePatientPayload.name = ''Ann'', CreatePatientPayload.age = 30\<rparr>"

definition ann :: Patient where
  "ann = \<lparr>Patient.id = ''Pat1'', Patient.owner = P1, Patient.name = ''Ann'',
           Patient.age = 30\<rparr>"

definition cough_payload :: CreateConsultationPayload where
  "cough_payload = \<lparr>CreateConsultationPayload.patient_id = ''Pat1'',
                     CreateConsultationPayload.problem = ''cough'',
                     CreateConsultationPayload.department_id = ''D1''\<rparr>"

definition cough :: Consultation where
  "cough = \<lparr>Consultation.id = ''Con1'', Consultation.patient_id = ''Pat1'',
             Consultation.problem = ''cough'', Consultation.department_id = ''D1''\<rparr>"

definition hello_payload :: CreateChatPayload where
  "hello_payload = \<lparr>CreateChatPayload.patient_id = ''Pat1'',
                     CreateChatPayload.doctor_id = ''Doc1'',
                     CreateChatPayload.message = ''hello'',
                     CreateChatPayload.timestamp = ''2024-05-01T10:00''\<rparr>"

definition hello :: Chat where
  "hello = \<lparr>Chat.id = ''Cha1'', Chat.patient_id = ''Pat1'', Chat.doctor_id = ''Doc1'',
             Chat.message = ''hello'', Chat.timestamp = ''2024-05-01T10:00''\<rparr>"

definition neurology :: Department where
  "neurology = \<lparr>Department.id = ''D2'', Department.name = ''Neurology''\<rparr>"

definition john_doe :: Doctor where
  "john_doe = \<lparr>Doctor.id = ''Doc2'', Doctor.owner = P1, Doctor.name = ''John Doe'',
                Doctor.department_id = ''D1'', Doctor.image = ''doe.png''\<rparr>"

definition jane_roe :: Doctor where
  "jane_roe = \<lparr>Doctor.id = ''Doc3'', Doctor.owner = P2, Doctor.name = ''Jane Roe'',
                Doctor.department_id = ''D2'', Doctor.image = ''roe.png''\<rparr>"

definition ben :: Patient where
  "ben = \<lparr>Patient.id = ''Pat2'', Patient.owner = P1, Patient.name = ''Ben'',
           Patient.age = 52\<rparr>"

definition clinic :: state where
  "clinic = \<lparr>Departments = [(''D1'', cardiology), (''D2'', neurology)],
              Doctors = [(''Doc1'', dr_lee), (''Doc2'', john_doe), (''Doc3'', jane_roe)],
              Patients = [(''Pat1'', ann), (''Pat2'', ben)],
              Consultations = [(''Con1'', cough)],
              Chats = [(''Cha1'', hello)]\<rparr>"




lemmas example_defs =
  P1_def P2_def cardiology_payload_def cardiology_def lee_payload_def dr_lee_def
  ann_payload_def ann_def cough_payload_def cough_def hello_payload_def hello_def init_def
  neurology_def john_doe_def jane_roe_def ben_def

section \<open>Properties of the store\<close>

lemma get_insert_map:
  "get_map (insert_map k v m) k' = (if k' = k then Some v else get_map m k')"
  by (induction m) auto

section \<open>Creating a record and reading it back\<close>

lemma createDepartment_get:
  assumes "CreateDepartmentPayload.name p \<noteq> []"
  shows "\<exists>r s'. createDepartment rt s p = (Inr r, s') \<and>
           getDepartmentById rt' s' (Department.id r) = Inr r"
  using assms by (simp add: createDepartment_def getDepartmentById_def Let_def get_insert_map)

lemma createDoctor_get:
  assumes "CreateDoctorPayload.name p \<noteq> []" "CreateDoctorPayload.department_id p \<noteq> []"
    "CreateDoctorPayload.image p \<noteq> []"
    "\<not> (\<exists>d \<in> set (values_map (Doctors s)).
          Doctor.name d = CreateDoctorPayload.name p \<and>
          Doctor.department_id d = CreateDoctorPayload.department_id p)"
  shows "\<exists>r s'. createDoctor rt s p = (Inr r, s') \<and>
           getDoctorById rt' s' (Doctor.id r) = Inr r"
  using assms by (simp add: createDoctor_def getDoctorById_def Let_def get_insert_map list_ex_iff)

lemma createPatient_get:
  assumes "CreatePatientPayload.name p \<noteq> []"
  shows "\<exists>r s'. createPatient rt s p = (Inr r, s') \<and>
           getPatientById rt' s' (Patient.id r) = Inr r"
  using assms by (simp add: createPatient_def getPatientById_def Let_def get_insert_map)

lemma createConsultation_get:
  assumes "CreateConsultationPayload.patient_id p \<noteq> []" "CreateConsultationPayload.problem p \<noteq> []"
    "CreateConsultationPayload.department_id p \<noteq> []"
  shows "\<exists>r s'. createConsultation rt s p = (Inr r, s') \<and>
           getConsultationById rt' s' (Consultation.id r) = Inr r"
  using assms
  by (simp add: createConsultation_def getConsultationById_def Let_def get_insert_map)

lemma createChat_get:
  assumes "CreateChatPayload.patient_id p \<noteq> []" "CreateChatPayload.doctor_id p \<noteq> []"
    "CreateChatPayload.message p \<noteq> []" "CreateChatPayload.timestamp p \<noteq> []"
  shows "\<exists>r s'. createChat rt s p = (Inr r, s') \<and> getChatById rt' s' (Chat.id r) = Inr r"
  using assms by (simp add: createChat_def getChatById_def Let_def get_insert_map)

text \<open>
  Claim C1. For each of the five entity types, a create call with a valid payload (every
  required text field non-empty and, for a doctor, no stored doctor of the same name in
  the same department) returns \<open>Ok\<close> with a record, and \<^verbatim>\<open>getXById\<close> of that
  record's id on the resulting state returns the same record.
\<close>

theorem create_then_getById:
  "(CreateDepartmentPayload.name dep \<noteq> [] \<longrightarrow>
      (\<exists>r s'. createDepartment rt s dep = (Inr r, s') \<and>
         getDepartmentById rt' s' (Department.id r) = Inr r))
   \<and> (CreateDoctorPayload.name doc \<noteq> [] \<and> CreateDoctorPayload.department_id doc \<noteq> [] \<and>
      CreateDoctorPayload.image doc \<noteq> [] \<and>
      \<not> (\<exists>d \<in> set (values_map (Doctors s)).
            Doctor.name d = CreateDoctorPayload.name doc \<and>
            Doctor.department_id d = CreateDoctorPayload.department_id doc) \<longrightarrow>
      (\<exists>r s'. createDoctor rt s doc = (Inr r, s') \<and>
         getDoctorById rt' s' (Doctor.id r) = Inr r))
   \<and> (CreatePatientPayload.name pat \<noteq> [] \<longrightarrow>
      (\<exists>r s'. createPatient rt s pat = (Inr r, s') \<and>
         getPatientById rt' s' (Patient.id r) = Inr r))
   \<and> (CreateConsultationPayload.patient_id con \<noteq> [] \<and>
      CreateConsultationPayload.problem con \<noteq> [] \<and>
      CreateConsultationPayload.department_id con \<noteq> [] \<longrightarrow>
      (\<exists>r s'. createConsultation rt s con = (Inr r, s') \<and>
         getConsultationById rt' s' (Consultation.id r) = Inr r))
   \<and> (CreateChatPayload.patient_id cha \<noteq> [] \<and> CreateChatPayload.doctor_id cha \<noteq> [] \<and>
      CreateChatPayload.message cha \<noteq> [] \<and> CreateChatPayload.timestamp cha \<noteq> [] \<longrightarrow>
      (\<exists>r s'. createChat rt s cha = (Inr r, s') \<and> getChatById rt' s' (Chat.id r) = Inr r))"
  using createDepartment_get [of dep rt s rt'] createDoctor_get [of doc s rt rt']
    createPatient_get [of pat rt s rt'] createConsultation_get [of con rt s rt']
    createChat_get [of cha rt s rt']
  by blast

theorem create_then_getById_witness:
  "(CreateDepartmentPayload.name cardiology_payload \<noteq> [] \<and>
      (\<exists>r s'. createDepartment \<lparr>caller = P1, uuidv4 = ''u-1''\<rparr> init cardiology_payload
                 = (Inr r, s') \<and>
         getDepartmentById \<lparr>caller = P2, uuidv4 = ''u-9''\<rparr> s' (Department.id r) = Inr r))
   \<and> (\<not> (\<exists>d \<in> set (values_map (Doctors init)).
            Doctor.name d = CreateDoctorPayload.name lee_payload \<and>
            Doctor.department_id d = CreateDoctorPayload.department_id lee_payload) \<and>
      (\<exists>r s'. createDoctor \<lparr>caller = P1, uuidv4 = ''u-1''\<rparr> init lee_payload = (Inr r, s') \<and>
         getDoctorById \<lparr>caller = P2, uuidv4 = ''u-9''\<rparr> s' (Doctor.id r) = Inr r))
   \<and> (\<exists>r s'. createPatient \<lparr>caller = P1, uuidv4 = ''u-1''\<rparr> init ann_payload = (Inr r, s') \<and>
         getPatientById \<lparr>caller = P2, uuidv4 = ''u-9''\<rparr> s' (Patient.id r) = Inr r)
   \<and> (\<exists>r s'. createConsultation \<lparr>caller = P1, uuidv4 = ''u-1''\<rparr> init cough_payload
                 = (Inr r, s') \<and>
         getConsultationById \<lparr>caller = P2, uuidv4 = ''u-9''\<rparr> s' (Consultation.id r) = Inr r)
   \<and> (\<exists>r s'. createChat \<lparr>caller = P1, uuidv4 = ''u-1''\<rparr> init hello_payload = (Inr r, s') \<and>
         getChatById \<lparr>caller = P2, uuidv4 = ''u-9''\<rparr> s' (Chat.id r) = Inr r)"
  using create_then_getById
    [where dep = cardiology_payload and doc = lee_payload and pat = ann_payload
       and con = cough_payload and cha = hello_payload and s = init
       and rt = "\<lparr>caller = P1, uuidv4 = ''u-1''\<rparr>"
       and rt' = "\<lparr>caller = P2, uuidv4 = ''u-9''\<rparr>"]
  by (simp add: example_defs values_map_def)

section \<open>Creating a doctor that already exists in the department\<close>

text \<open>
  Claim C2. When a stored doctor has name \<open>N\<close> and department \<open>D\<close>, \<^verbatim>\<open>createDoctor\<close> with
  the payload \<open>{name: N, department_id: D, image}\<close> returns \<open>InvalidPayload\<close> and leaves the
  state as it was, for every caller, every generated identifier and every image. With
  all three fields non-empty the message is the one of the uniqueness check.
\<close>

theorem createDoctor_existing_name_in_department:
  assumes "d \<in> set (values_map (Doctors s))"
    and "Doctor.name d = N" and "Doctor.department_id d = D"
  shows "(\<exists>msg. createDoctor rt s
             \<lparr>CreateDoctorPayload.name = N, CreateDoctorPayload.department_id = D,
              CreateDoctorPayload.image = img\<rparr> = (Inl (InvalidPayload msg), s))
       \<and> (N \<noteq> [] \<and> D \<noteq> [] \<and> img \<noteq> [] \<longrightarrow>
           createDoctor rt s
             \<lparr>CreateDoctorPayload.name = N, CreateDoctorPayload.department_id = D,
              CreateDoctorPayload.image = img\<rparr>
           = (Inl (InvalidPayload ''Doctor with this name already exists in the department''),
              s))"
  using assms by (auto simp add: createDoctor_def Let_def list_ex_iff)

theorem createDoctor_existing_name_in_department_witness:
  "dr_lee \<in> set (values_map (Doctors (init\<lparr>Doctors := [(''Doc1'', dr_lee)]\<rparr>)))
   \<and> Doctor.name dr_lee = ''Dr. Lee'' \<and> Doctor.department_id dr_lee = ''D1''
   \<and> createDoctor \<lparr>caller = P2, uuidv4 = ''u-2''\<rparr> (init\<lparr>Doctors := [(''Doc1'', dr_lee)]\<rparr>)
         \<lparr>CreateDoctorPayload.name = ''Dr. Lee'', CreateDoctorPayload.department_id = ''D1'',
          CreateDoctorPayload.image = ''other.png''\<rparr>
       = (Inl (InvalidPayload ''Doctor with this name already exists in the department''),
          init\<lparr>Doctors := [(''Doc1'', dr_lee)]\<rparr>)"
  using createDoctor_existing_name_in_department
    [where d = dr_lee and s = "init\<lparr>Doctors := [(''Doc1'', dr_lee)]\<rparr>"
       and N = "''Dr. Lee''" and D = "''D1''" and img = "''other.png''"
       and rt = "\<lparr>caller = P2, uuidv4 = ''u-2''\<rparr>"]
  by (simp add: values_map_def dr_lee_def)

section \<open>Listing a store\<close>

lemma getAllDepartments_one:
  assumes "Departments s = []" and "createDepartment rt s p = (Inr r, s')"
  shows "getAllDepartments rt' s' = Inr [r]"
  using assms
  by (auto simp add: createDepartment_def getAllDepartments_def values_map_def Let_def
      split: if_splits)

lemma getAllDoctors_one:
  assumes "Doctors s = []" and "createDoctor rt s p = (Inr r, s')"
  shows "getAllDoctors rt' s' = Inr [r]"
  using assms
  by (auto simp add: createDoctor_def getAllDoctors_def values_map_def Let_def
      split: if_splits)

lemma getAllPatients_one:
  assumes "Patients s = []" and "createPatient rt s p = (Inr r, s')"
  shows "getAllPatients rt' s' = Inr [r]"
  using assms
  by (auto simp add: createPatient_def getAllPatients_def values_map_def Let_def
      split: if_splits)

lemma getAllConsultations_one:
  assumes "Consultations s = []" and "createConsultation rt s p = (Inr r, s')"
  shows "getAllConsultations rt' s' = Inr [r]"
  using assms
  by (auto simp add: createConsultation_def getAllConsultations_def values_map_def Let_def
      split: if_splits)

lemma getAllChats_one:
  assumes "Chats s = []" and "createChat rt s p = (Inr r, s')"
  shows "getAllChats rt' s' = Inr [r]"
  using assms
  by (auto simp add: createChat_def getAllChats_def values_map_def Let_def split: if_splits)

text \<open>
  Claim C3. On an empty store \<^verbatim>\<open>getAllX\<close> returns \<open>NotFound\<close>, not an empty list; after
  one successful \<^verbatim>\<open>createX\<close> on an empty store it returns the list holding exactly the
  created record. This holds for all five entity types.
\<close>

theorem getAll_empty_and_single:
  "(Departments s = [] \<longrightarrow>
      getAllDepartments rt s = Inl (NotFound ''No departments found'') \<and>
      (createDepartment rt s dep = (Inr rdep, sdep) \<longrightarrow> getAllDepartments rt' sdep = Inr [rdep]))
   \<and> (Doctors s = [] \<longrightarrow>
      getAllDoctors rt s = Inl (NotFound ''No doctors found'') \<and>
      (createDoctor rt s doc = (Inr rdoc, sdoc) \<longrightarrow> getAllDoctors rt' sdoc = Inr [rdoc]))
   \<and> (Patients s = [] \<longrightarrow>
      getAllPatients rt s = Inl (NotFound ''No patients found'') \<and>
      (createPatient rt s pat = (Inr rpat, spat) \<longrightarrow> getAllPatients rt' spat = Inr [rpat]))
   \<and> (Consultations s = [] \<longrightarrow>
      getAllConsultations rt s = Inl (NotFound ''No consultations found'') \<and>
      (createConsultation rt s con = (Inr rcon, scon) \<longrightarrow> getAllConsultations rt' scon = Inr [rcon]))
   \<and> (Chats s = [] \<longrightarrow>
      getAllChats rt s = Inl (NotFound ''No chats found'') \<and>
      (createChat rt s cha = (Inr rcha, scha) \<longrightarrow> getAllChats rt' scha = Inr [rcha]))"
proof -
  have "Departments s = [] \<Longrightarrow> getAllDepartments rt s = Inl (NotFound ''No departments found'')"
    by (simp add: getAllDepartments_def values_map_def)
  moreover have "Doctors s = [] \<Longrightarrow> getAllDoctors rt s = Inl (NotFound ''No doctors found'')"
    by (simp add: getAllDoctors_def values_map_def)
  moreover have "Patients s = [] \<Longrightarrow> getAllPatients rt s = Inl (NotFound ''No patients found'')"
    by (simp add: getAllPatients_def values_map_def)
  moreover have "Consultations s = [] \<Longrightarrow>
      getAllConsultations rt s = Inl (NotFound ''No consultations found'')"
    by (simp add: getAllConsultations_def values_map_def)
  moreover have "Chats s = [] \<Longrightarrow> getAllChats rt s = Inl (NotFound ''No chats found'')"
    by (simp add: getAllChats_def values_map_def)
  ultimately show ?thesis
    using getAllDepartments_one [of s rt dep rdep sdep rt'] getAllDoctors_one [of s rt doc rdoc sdoc rt']
      getAllPatients_one [of s rt pat rpat spat rt']
      getAllConsultations_one [of s rt con rcon scon rt'] getAllChats_one [of s rt cha rcha scha rt']
    by blast
qed

theorem getAll_empty_and_single_witness:
  "(Departments init = [] \<and>
      getAllDepartments \<lparr>caller = P1, uuidv4 = ''u-1''\<rparr> init
        = Inl (NotFound ''No departments found'') \<and>
      createDepartment \<lparr>caller = P1, uuidv4 = ''u-1''\<rparr> init cardiology_payload
        = (Inr (cardiology\<lparr>Department.id := ''u-1''\<rparr>),
           init\<lparr>Departments := [(''u-1'', cardiology\<lparr>Department.id := ''u-1''\<rparr>)]\<rparr>) \<and>
      getAllDepartments \<lparr>caller = P2, uuidv4 = ''u-9''\<rparr>
          (init\<lparr>Departments := [(''u-1'', cardiology\<lparr>Department.id := ''u-1''\<rparr>)]\<rparr>)
        = Inr [cardiology\<lparr>Department.id := ''u-1''\<rparr>])
   \<and> (Doctors init = [] \<and>
      getAllDoctors \<lparr>caller = P1, uuidv4 = ''u-1''\<rparr> init = Inl (NotFound ''No doctors found'') \<and>
      createDoctor \<lparr>caller = P1, uuidv4 = ''u-1''\<rparr> init lee_payload
        = (Inr (dr_lee\<lparr>Doctor.id := ''u-1''\<rparr>),
           init\<lparr>Doctors := [(''u-1'', dr_lee\<lparr>Doctor.id := ''u-1''\<rparr>)]\<rparr>) \<and>
      getAllDoctors \<lparr>caller = P2, uuidv4 = ''u-9''\<rparr>
          (init\<lparr>Doctors := [(''u-1'', dr_lee\<lparr>Doctor.id := ''u-1''\<rparr>)]\<rparr>)
        = Inr [dr_lee\<lparr>Doctor.id := ''u-1''\<rparr>])
   \<and> (Patients init = [] \<and>
      getAllPatients \<lparr>caller = P1, uuidv4 = ''u-1''\<rparr> init = Inl (NotFound ''No patients found'') \<and>
      createPatient \<lparr>caller = P1, uuidv4 = ''u-1''\<rparr> init ann_payload
        = (Inr (ann\<lparr>Patient.id := ''u-1''\<rparr>),
           init\<lparr>Patients := [(''u-1'', ann\<lparr>Patient.id := ''u-1''\<rparr>)]\<rparr>) \<and>
      getAllPatients \<lparr>caller = P2, uuidv4 = ''u-9''\<rparr>
          (init\<lparr>Patients := [(''u-1'', ann\<lparr>Patient.id := ''u-1''\<rparr>)]\<rparr>)
        = Inr [ann\<lparr>Patient.id := ''u-1''\<rparr>])
   \<and> (Consultations init = [] \<and>
      getAllConsultations \<lparr>caller = P1, uuidv4 = ''u-1''\<rparr> init
        = Inl (NotFound ''No consultations found'') \<and>
      createConsultation \<lparr>caller = P1, uuidv4 = ''u-1''\<rparr> init cough_payload
        = (Inr (cough\<lparr>Consultation.id := ''u-1''\<rparr>),
           init\<lparr>Consultations := [(''u-1'', cough\<lparr>Consultation.id := ''u-1''\<rparr>)]\<rparr>) \<and>
      getAllConsultations \<lparr>caller = P2, uuidv4 = ''u-9''\<rparr>
          (init\<lparr>Consultations := [(''u-1'', cough\<lparr>Consultation.id := ''u-1''\<rparr>)]\<rparr>)
        = Inr [cough\<lparr>Consultation.id := ''u-1''\<rparr>])
   \<and> (Chats init = [] \<and>
      getAllChats \<lparr>caller = P1, uuidv4 = ''u-1''\<rparr> init = Inl (NotFound ''No chats found'') \<and>
      createChat \<lparr>caller = P1, uuidv4 = ''u-1''\<rparr> init hello_payload
        = (Inr (hello\<lparr>Chat.id := ''u-1''\<rparr>),
           init\<lparr>Chats := [(''u-1'', hello\<lparr>Chat.id := ''u-1''\<rparr>)]\<rparr>) \<and>
      getAllChats \<lparr>caller = P2, uuidv4 = ''u-9''\<rparr>
          (init\<lparr>Chats := [(''u-1'', hello\<lparr>Chat.id := ''u-1''\<rparr>)]\<rparr>)
        = Inr [hello\<lparr>Chat.id := ''u-1''\<rparr>])"
proof -
  have dep: "createDepartment \<lparr>caller = P1, uuidv4 = ''u-1''\<rparr> init cardiology_payload
        = (Inr (cardiology\<lparr>Department.id := ''u-1''\<rparr>),
           init\<lparr>Departments := [(''u-1'', cardiology\<lparr>Department.id := ''u-1''\<rparr>)]\<rparr>)"
    by (simp add: createDepartment_def Let_def example_defs)
  have doc: "createDoctor \<lparr>caller = P1, uuidv4 = ''u-1''\<rparr> init lee_payload
        = (Inr (dr_lee\<lparr>Doctor.id := ''u-1''\<rparr>),
           init\<lparr>Doctors := [(''u-1'', dr_lee\<lparr>Doctor.id := ''u-1''\<rparr>)]\<rparr>)"
    by (simp add: createDoctor_def Let_def values_map_def example_defs)
  have pat: "createPatient \<lparr>caller = P1, uuidv4 = ''u-1''\<rparr> init ann_payload
        = (Inr (ann\<lparr>Patient.id := ''u-1''\<rparr>),
           init\<lparr>Patients := [(''u-1'', ann\<lparr>Patient.id := ''u-1''\<rparr>)]\<rparr>)"
    by (simp add: createPatient_def Let_def example_defs)
  have con: "createConsultation \<lparr>caller = P1, uuidv4 = ''u-1''\<rparr> init cough_payload
        = (Inr (cough\<lparr>Consultation.id := ''u-1''\<rparr>),
           init\<lparr>Consultations := [(''u-1'', cough\<lparr>Consultation.id := ''u-1''\<rparr>)]\<rparr>)"
    by (simp add: createConsultation_def Let_def example_defs)
  have cha: "createChat \<lparr>caller = P1, uuidv4 = ''u-1''\<rparr> init hello_payload
        = (Inr (hello\<lparr>Chat.id := ''u-1''\<rparr>),
           init\<lparr>Chats := [(''u-1'', hello\<lparr>Chat.id := ''u-1''\<rparr>)]\<rparr>)"
    by (simp add: createChat_def Let_def example_defs)
  have emp: "Departments init = []" "Doctors init = []" "Patients init = []"
    "Consultations init = []" "Chats init = []"
    by (simp_all add: init_def)
  show ?thesis
    using getAll_empty_and_single
      [where s = init and rt = "\<lparr>caller = P1, uuidv4 = ''u-1''\<rparr>"
         and rt' = "\<lparr>caller = P2, uuidv4 = ''u-9''\<rparr>"
         and dep = cardiology_payload and doc = lee_payload and pat = ann_payload
         and con = cough_payload and cha = hello_payload
         and rdep = "cardiology\<lparr>Department.id := ''u-1''\<rparr>"
         and sdep = "init\<lparr>Departments := [(''u-1'', cardiology\<lparr>Department.id := ''u-1''\<rparr>)]\<rparr>"
         and rdoc = "dr_lee\<lparr>Doctor.id := ''u-1''\<rparr>"
         and sdoc = "init\<lparr>Doctors := [(''u-1'', dr_lee\<lparr>Doctor.id := ''u-1''\<rparr>)]\<rparr>"
         and rpat = "ann\<lparr>Patient.id := ''u-1''\<rparr>"
         and spat = "init\<lparr>Patients := [(''u-1'', ann\<lparr>Patient.id := ''u-1''\<rparr>)]\<rparr>"
         and rcon = "cough\<lparr>Consultation.id := ''u-1''\<rparr>"
         and scon = "init\<lparr>Consultations := [(''u-1'', cough\<lparr>Consultation.id := ''u-1''\<rparr>)]\<rparr>"
         and rcha = "hello\<lparr>Chat.id := ''u-1''\<rparr>"
         and scha = "init\<lparr>Chats := [(''u-1'', hello\<lparr>Chat.id := ''u-1''\<rparr>)]\<rparr>"]
      dep doc pat con cha emp
    by simp
qed

section \<open>One entry per key\<close>

lemma get_map_absent: "k \<notin> set (map fst m) \<Longrightarrow> get_map m k = None"
  by (induction m) auto

lemma get_map_present: "get_map m k = Some v \<Longrightarrow> (k, v) \<in> set m"
  by (induction m) (auto split: if_splits)

lemma wf_map_Nil: "wf_map []"
  by (simp add: wf_map_def)

lemma wf_map_Cons: "wf_map ((k, v) # m) \<longleftrightarrow> (\<forall>k' \<in> set (map fst m). k < k') \<and> wf_map m"
  by (auto simp add: wf_map_def)

lemma set_insert_map: "set (insert_map k v m) \<subseteq> insert (k, v) (set m)"
  by (induction m) (auto split: if_splits)

lemma wf_insert_map: "wf_map m \<Longrightarrow> wf_map (insert_map k v m)"
proof (induction m)
  case Nil
  then show ?case by (simp add: wf_map_def)
next
  case (Cons e m)
  obtain k' v' where e: "e = (k', v')" by (cases e)
  from Cons.prems have lt: "\<forall>x \<in> set (map fst m). k' < x" and wf: "wf_map m"
    by (simp_all add: e wf_map_Cons)
  show ?case
  proof (cases "k = k'")
    case True
    with lt wf show ?thesis by (simp add: e wf_map_Cons)
  next
    case False
    show ?thesis
    proof (cases "k < k'")
      case True
      with lt wf False show ?thesis by (auto simp add: e wf_map_Cons)
    next
      case ge: False
      with False have "k' < k" by simp
      moreover from lt set_insert_map [of k v m] \<open>k' < k\<close>
      have "\<forall>x \<in> set (map fst (insert_map k v m)). k' < x"
        by auto
      ultimately show ?thesis
        using Cons.IH [OF wf] False ge by (simp add: e wf_map_Cons)
    qed
  qed
qed

lemma set_remove_map: "set (remove_map k m) \<subseteq> set m"
  by (induction m) (auto split: if_splits)

lemma wf_remove_map: "wf_map m \<Longrightarrow> wf_map (remove_map k m)"
proof (induction m)
  case Nil
  then show ?case by simp
next
  case (Cons e m)
  obtain k' v' where e: "e = (k', v')" by (cases e)
  from Cons.prems have lt: "\<forall>x \<in> set (map fst m). k' < x" and wf: "wf_map m"
    by (simp_all add: e wf_map_Cons)
  from lt set_remove_map [of k m] have "\<forall>x \<in> set (map fst (remove_map k m)). k' < x"
    by auto
  with Cons.IH [OF wf] wf show ?case
    by (simp add: e wf_map_Cons)
qed

lemma get_remove_map_other: "k' \<noteq> k \<Longrightarrow> get_map (remove_map k m) k' = get_map m k'"
  by (induction m) auto

lemma remove_map_present:
  assumes "wf_map m" and "get_map m k = Some v"
  shows "\<exists>pre post. m = pre @ (k, v) # post \<and> remove_map k m = pre @ post \<and>
           get_map (pre @ post) k = None"
  using assms
proof (induction m)
  case Nil
  then show ?case by simp
next
  case (Cons e m)
  obtain k' v' where e: "e = (k', v')" by (cases e)
  from Cons.prems(1) have lt: "\<forall>x \<in> set (map fst m). k' < x" and wf: "wf_map m"
    by (simp_all add: e wf_map_Cons)
  show ?case
  proof (cases "k = k'")
    case True
    with lt have "k \<notin> set (map fst m)" by auto
    then have "get_map m k = None" by (rule get_map_absent)
    moreover from True Cons.prems(2) have "v' = v" by (simp add: e)
    ultimately have "e # m = [] @ (k, v) # m \<and> remove_map k (e # m) = [] @ m \<and>
        get_map ([] @ m) k = None"
      using True by (simp add: e)
    then show ?thesis by blast
  next
    case False
    with Cons.prems(2) have "get_map m k = Some v" by (simp add: e)
    from Cons.IH [OF wf this] obtain pre post where
      m: "m = pre @ (k, v) # post" and r: "remove_map k m = pre @ post"
      and g: "get_map (pre @ post) k = None"
      by blast
    from False m r g have "e # m = (e # pre) @ (k, v) # post \<and>
        remove_map k (e # m) = (e # pre) @ post \<and> get_map ((e # pre) @ post) k = None"
      by (simp add: e)
    then show ?thesis by blast
  qed
qed

lemma remove_map_absent: "get_map m k = None \<Longrightarrow> remove_map k m = m"
  by (induction m) (auto split: if_splits)

text \<open>Every store starts empty and every method keeps one entry per key, in key order.\<close>

lemma wf_state_init: "wf_state init"
  by (simp add: wf_state_def init_def wf_map_Nil)

lemma wf_state_create:
  assumes "wf_state s"
  shows "wf_state (snd (createDepartment rt s dep))" and "wf_state (snd (createDoctor rt s doc))"
    and "wf_state (snd (createPatient rt s pat))"
    and "wf_state (snd (createConsultation rt s con))"
    and "wf_state (snd (createChat rt s cha))"
  using assms
  by (simp_all add: wf_state_def createDepartment_def createDoctor_def createPatient_def
      createConsultation_def createChat_def Let_def wf_insert_map)

lemma wf_state_update:
  assumes "wf_state s"
  shows "wf_state (snd (updatePatient rt s i pat))" and "wf_state (snd (updateDoctor rt s i doc))"
    and "wf_state (snd (updateDoctorAvailability rt s i b))"
  using assms
  by (simp_all add: wf_state_def updatePatient_def updateDoctor_def
      updateDoctorAvailability_def Let_def wf_insert_map split: option.splits)

lemma wf_state_delete:
  assumes "wf_state s"
  shows "wf_state (snd (deletePatient rt s i))" and "wf_state (snd (deleteDoctor rt s i))"
    and "wf_state (snd (deleteDepartment rt s i))"
  using assms
  by (simp_all add: wf_state_def deletePatient_def deleteDoctor_def deleteDepartment_def
      wf_remove_map split: option.splits)

lemma reachable_wf_state: "reachable s \<Longrightarrow> wf_state s"
  by (induction rule: reachable.induct)
    (simp_all add: wf_state_init wf_state_create wf_state_update wf_state_delete)

section \<open>Deleting a record\<close>

lemma deleteDepartment_present:
  assumes "wf_map (Departments s)" and "get_map (Departments s) i = Some r"
  shows "\<exists>pre post. Departments s = pre @ (i, r) # post \<and>
      deleteDepartment rt s i
        = (Inr (Success (''Department with id='' @ i @ '' deleted successfully'')),
           s\<lparr>Departments := pre @ post\<rparr>) \<and>
      getDepartmentById rt' (s\<lparr>Departments := pre @ post\<rparr>) i
        = Inl (NotFound (''Department with id='' @ i @ '' not found'')) \<and>
      deleteDepartment rt'' (s\<lparr>Departments := pre @ post\<rparr>) i
        = (Inl (NotFound (''Department with id='' @ i @ '' not found'')),
           s\<lparr>Departments := pre @ post\<rparr>)"
proof -
  from remove_map_present [OF assms] obtain pre post where
    "Departments s = pre @ (i, r) # post" "remove_map i (Departments s) = pre @ post"
    "get_map (pre @ post) i = None"
    by blast
  with assms(2) have "Departments s = pre @ (i, r) # post \<and>
      deleteDepartment rt s i
        = (Inr (Success (''Department with id='' @ i @ '' deleted successfully'')),
           s\<lparr>Departments := pre @ post\<rparr>) \<and>
      getDepartmentById rt' (s\<lparr>Departments := pre @ post\<rparr>) i
        = Inl (NotFound (''Department with id='' @ i @ '' not found'')) \<and>
      deleteDepartment rt'' (s\<lparr>Departments := pre @ post\<rparr>) i
        = (Inl (NotFound (''Department with id='' @ i @ '' not found'')),
           s\<lparr>Departments := pre @ post\<rparr>)"
    by (simp add: deleteDepartment_def getDepartmentById_def)
  then show ?thesis
    by blast
qed

lemma deleteDoctor_present:
  assumes "wf_map (Doctors s)" and "get_map (Doctors s) i = Some r"
  shows "\<exists>pre post. Doctors s = pre @ (i, r) # post \<and>
      deleteDoctor rt s i
        = (Inr (Success (''Doctor with id='' @ i @ '' deleted successfully'')),
           s\<lparr>Doctors := pre @ post\<rparr>) \<and>
      getDoctorById rt' (s\<lparr>Doctors := pre @ post\<rparr>) i
        = Inl (NotFound (''Doctor with id='' @ i @ '' not found'')) \<and>
      deleteDoctor rt'' (s\<lparr>Doctors := pre @ post\<rparr>) i
        = (Inl (NotFound (''Doctor with id='' @ i @ '' not found'')),
           s\<lparr>Doctors := pre @ post\<rparr>)"
proof -
  from remove_map_present [OF assms] obtain pre post where
    "Doctors s = pre @ (i, r) # post" "remove_map i (Doctors s) = pre @ post"
    "get_map (pre @ post) i = None"
    by blast
  with assms(2) have "Doctors s = pre @ (i, r) # post \<and>
      deleteDoctor rt s i
        = (Inr (Success (''Doctor with id='' @ i @ '' deleted successfully'')),
           s\<lparr>Doctors := pre @ post\<rparr>) \<and>
      getDoctorById rt' (s\<lparr>Doctors := pre @ post\<rparr>) i
        = Inl (NotFound (''Doctor with id='' @ i @ '' not found'')) \<and>
      deleteDoctor rt'' (s\<lparr>Doctors := pre @ post\<rparr>) i
        = (Inl (NotFound (''Doctor with id='' @ i @ '' not found'')),
           s\<lparr>Doctors := pre @ post\<rparr>)"
    by (simp add: deleteDoctor_def getDoctorById_def)
  then show ?thesis
    by blast
qed

lemma deletePatient_present:
  assumes "wf_map (Patients s)" and "get_map (Patients s) i = Some r"
  shows "\<exists>pre post. Patients s = pre @ (i, r) # post \<and>
      deletePatient rt s i
        = (Inr (Success (''Patient with id='' @ i @ '' deleted successfully'')),
           s\<lparr>Patients := pre @ post\<rparr>) \<and>
      getPatientById rt' (s\<lparr>Patients := pre @ post\<rparr>) i
        = Inl (NotFound (''Patient with id='' @ i @ '' not found'')) \<and>
      deletePatient rt'' (s\<lparr>Patients := pre @ post\<rparr>) i
        = (Inl (NotFound (''Patient with id='' @ i @ '' not found'')),
           s\<lparr>Patients := pre @ post\<rparr>)"
proof -
  from remove_map_present [OF assms] obtain pre post where
    "Patients s = pre @ (i, r) # post" "remove_map i (Patients s) = pre @ post"
    "get_map (pre @ post) i = None"
    by blast
  with assms(2) have "Patients s = pre @ (i, r) # post \<and>
      deletePatient rt s i
        = (Inr (Success (''Patient with id='' @ i @ '' deleted successfully'')),
           s\<lparr>Patients := pre @ post\<rparr>) \<and>
      getPatientById rt' (s\<lparr>Patients := pre @ post\<rparr>) i
        = Inl (NotFound (''Patient with id='' @ i @ '' not found'')) \<and>
      deletePatient rt'' (s\<lparr>Patients := pre @ post\<rparr>) i
        = (Inl (NotFound (''Patient with id='' @ i @ '' not found'')),
           s\<lparr>Patients := pre @ post\<rparr>)"
    by (simp add: deletePatient_def getPatientById_def)
  then show ?thesis
    by blast
qed

lemma delete_absent:
  "get_map (Departments s) i = None \<Longrightarrow>
     deleteDepartment rt s i
       = (Inl (NotFound (''Department with id='' @ i @ '' not found'')), s)"
  "get_map (Doctors s) i = None \<Longrightarrow>
     deleteDoctor rt s i = (Inl (NotFound (''Doctor with id='' @ i @ '' not found'')), s)"
  "get_map (Patients s) i = None \<Longrightarrow>
     deletePatient rt s i = (Inl (NotFound (''Patient with id='' @ i @ '' not found'')), s)"
  by (simp_all add: deleteDepartment_def deleteDoctor_def deletePatient_def)

text \<open>
  Claim C6. For Department, Doctor and Patient: deleting an id that is present returns
  \<open>Ok\<close> with a \<open>Success\<close> message; the new state is the old one with exactly the entry of
  that id taken out of the entity's store (the entries before and after it stay, in
  order, and the four other stores are the same); on the new state \<^verbatim>\<open>getXById\<close> of the
  id is \<open>NotFound\<close>, and so is a second delete, which changes nothing. Deleting an id that
  is not present is \<open>NotFound\<close> and changes nothing. The stores hold one entry per key
  (\<open>wf_map\<close>), as every reachable store does.
\<close>

theorem delete_removes_exactly_one:
  "(wf_map (Departments s) \<longrightarrow>
      (get_map (Departments s) idep = Some dep \<longrightarrow>
         (\<exists>pre post. Departments s = pre @ (idep, dep) # post \<and>
            deleteDepartment rt s idep
              = (Inr (Success (''Department with id='' @ idep @ '' deleted successfully'')),
                 s\<lparr>Departments := pre @ post\<rparr>) \<and>
            getDepartmentById rt' (s\<lparr>Departments := pre @ post\<rparr>) idep
              = Inl (NotFound (''Department with id='' @ idep @ '' not found'')) \<and>
            deleteDepartment rt'' (s\<lparr>Departments := pre @ post\<rparr>) idep
              = (Inl (NotFound (''Department with id='' @ idep @ '' not found'')),
                 s\<lparr>Departments := pre @ post\<rparr>))) \<and>
      (get_map (Departments s) idep = None \<longrightarrow>
         deleteDepartment rt s idep
           = (Inl (NotFound (''Department with id='' @ idep @ '' not found'')), s)))
   \<and> (wf_map (Doctors s) \<longrightarrow>
      (get_map (Doctors s) idoc = Some doc \<longrightarrow>
         (\<exists>pre post. Doctors s = pre @ (idoc, doc) # post \<and>
            deleteDoctor rt s idoc
              = (Inr (Success (''Doctor with id='' @ idoc @ '' deleted successfully'')),
                 s\<lparr>Doctors := pre @ post\<rparr>) \<and>
            getDoctorById rt' (s\<lparr>Doctors := pre @ post\<rparr>) idoc
              = Inl (NotFound (''Doctor with id='' @ idoc @ '' not found'')) \<and>
            deleteDoctor rt'' (s\<lparr>Doctors := pre @ post\<rparr>) idoc
              = (Inl (NotFound (''Doctor with id='' @ idoc @ '' not found'')),
                 s\<lparr>Doctors := pre @ post\<rparr>))) \<and>
      (get_map (Doctors s) idoc = None \<longrightarrow>
         deleteDoctor rt s idoc
           = (Inl (NotFound (''Doctor with id='' @ idoc @ '' not found'')), s)))
   \<and> (wf_map (Patients s) \<longrightarrow>
      (get_map (Patients s) ipat = Some pat \<longrightarrow>
         (\<exists>pre post. Patients s = pre @ (ipat, pat) # post \<and>
            deletePatient rt s ipat
              = (Inr (Success (''Patient with id='' @ ipat @ '' deleted successfully'')),
                 s\<lparr>Patients := pre @ post\<rparr>) \<and>
            getPatientById rt' (s\<lparr>Patients := pre @ post\<rparr>) ipat
              = Inl (NotFound (''Patient with id='' @ ipat @ '' not found'')) \<and>
            deletePatient rt'' (s\<lparr>Patients := pre @ post\<rparr>) ipat
              = (Inl (NotFound (''Patient with id='' @ ipat @ '' not found'')),
                 s\<lparr>Patients := pre @ post\<rparr>))) \<and>
      (get_map (Patients s) ipat = None \<longrightarrow>
         deletePatient rt s ipat
           = (Inl (NotFound (''Patient with id='' @ ipat @ '' not found'')), s)))"
  using deleteDepartment_present [of s idep dep rt rt' rt'']
    deleteDoctor_present [of s idoc doc rt rt' rt''] deletePatient_present [of s ipat pat rt rt' rt'']
    delete_absent(1) [of s idep rt] delete_absent(2) [of s idoc rt] delete_absent(3) [of s ipat rt]
  by blast

theorem delete_removes_exactly_one_witness:
  "(wf_map (Departments clinic) \<and> get_map (Departments clinic) ''D1'' = Some cardiology \<and>
      deleteDepartment \<lparr>caller = P2, uuidv4 = ''u-1''\<rparr> clinic ''D1''
        = (Inr (Success ''Department with id=D1 deleted successfully''),
           clinic\<lparr>Departments := [(''D2'', neurology)]\<rparr>) \<and>
      getDepartmentById \<lparr>caller = P2, uuidv4 = ''u-2''\<rparr>
          (clinic\<lparr>Departments := [(''D2'', neurology)]\<rparr>) ''D1''
        = Inl (NotFound ''Department with id=D1 not found'') \<and>
      deleteDepartment \<lparr>caller = P2, uuidv4 = ''u-3''\<rparr>
          (clinic\<lparr>Departments := [(''D2'', neurology)]\<rparr>) ''D1''
        = (Inl (NotFound ''Department with id=D1 not found''),
           clinic\<lparr>Departments := [(''D2'', neurology)]\<rparr>))
   \<and> (wf_map (Doctors clinic) \<and> get_map (Doctors clinic) ''Doc2'' = Some john_doe \<and>
      deleteDoctor \<lparr>caller = P2, uuidv4 = ''u-1''\<rparr> clinic ''Doc2''
        = (Inr (Success ''Doctor with id=Doc2 deleted successfully''),
           clinic\<lparr>Doctors := [(''Doc1'', dr_lee), (''Doc3'', jane_roe)]\<rparr>) \<and>
      getDoctorById \<lparr>caller = P2, uuidv4 = ''u-2''\<rparr>
          (clinic\<lparr>Doctors := [(''Doc1'', dr_lee), (''Doc3'', jane_roe)]\<rparr>) ''Doc2''
        = Inl (NotFound ''Doctor with id=Doc2 not found'') \<and>
      deleteDoctor \<lparr>caller = P2, uuidv4 = ''u-3''\<rparr>
          (clinic\<lparr>Doctors := [(''Doc1'', dr_lee), (''Doc3'', jane_roe)]\<rparr>) ''Doc2''
        = (Inl (NotFound ''Doctor with id=Doc2 not found''),
           clinic\<lparr>Doctors := [(''Doc1'', dr_lee), (''Doc3'', jane_roe)]\<rparr>))
   \<and> (wf_map (Patients clinic) \<and> get_map (Patients clinic) ''Pat2'' = Some ben \<and>
      deletePatient \<lparr>caller = P2, uuidv4 = ''u-1''\<rparr> clinic ''Pat2''
        = (Inr (Success ''Patient with id=Pat2 deleted successfully''),
           clinic\<lparr>Patients := [(''Pat1'', ann)]\<rparr>) \<and>
      getPatientById \<lparr>caller = P2, uuidv4 = ''u-2''\<rparr>
          (clinic\<lparr>Patients := [(''Pat1'', ann)]\<rparr>) ''Pat2''
        = Inl (NotFound ''Patient with id=Pat2 not found'') \<and>
      deletePatient \<lparr>caller = P2, uuidv4 = ''u-3''\<rparr>
          (clinic\<lparr>Patients := [(''Pat1'', ann)]\<rparr>) ''Pat2''
        = (Inl (NotFound ''Patient with id=Pat2 not found''),
           clinic\<lparr>Patients := [(''Pat1'', ann)]\<rparr>))
   \<and> (get_map (Departments clinic) ''D9'' = None \<and>
      deleteDepartment \<lparr>caller = P2, uuidv4 = ''u-1''\<rparr> clinic ''D9''
        = (Inl (NotFound ''Department with id=D9 not found''), clinic))
   \<and> (get_map (Doctors clinic) ''D9'' = None \<and>
      deleteDoctor \<lparr>caller = P2, uuidv4 = ''u-1''\<rparr> clinic ''D9''
        = (Inl (NotFound ''Doctor with id=D9 not found''), clinic))
   \<and> (get_map (Patients clinic) ''D9'' = None \<and>
      deletePatient \<lparr>caller = P2, uuidv4 = ''u-1''\<rparr> clinic ''D9''
        = (Inl (NotFound ''Patient with id=D9 not found''), clinic))"
proof -
  have wf: "wf_map (Departments clinic)" "wf_map (Doctors clinic)" "wf_map (Patients clinic)"
    by (simp_all add: clinic_def wf_map_def)
  have present: "get_map (Departments clinic) ''D1'' = Some cardiology"
    "get_map (Doctors clinic) ''Doc2'' = Some john_doe"
    "get_map (Patients clinic) ''Pat2'' = Some ben"
    by (simp_all add: clinic_def)
  have absent: "get_map (Departments clinic) ''D9'' = None"
    "get_map (Doctors clinic) ''D9'' = None" "get_map (Patients clinic) ''D9'' = None"
    by (simp_all add: clinic_def)
  note run = deleteDepartment_def deleteDoctor_def deletePatient_def getDepartmentById_def
    getDoctorById_def getPatientById_def clinic_def
  show ?thesis
    using wf present absent
      delete_removes_exactly_one
        [where s = clinic and idep = "''D1''" and idoc = "''Doc2''" and ipat = "''Pat2''"
           and dep = cardiology and doc = john_doe and pat = ben
           and rt = "\<lparr>caller = P2, uuidv4 = ''u-1''\<rparr>"
           and rt' = "\<lparr>caller = P2, uuidv4 = ''u-2''\<rparr>"
           and rt'' = "\<lparr>caller = P2, uuidv4 = ''u-3''\<rparr>"]
      delete_removes_exactly_one
        [where s = clinic and idep = "''D9''" and idoc = "''D9''" and ipat = "''D9''"
           and rt = "\<lparr>caller = P2, uuidv4 = ''u-1''\<rparr>"]
    by (simp add: run)
qed

section \<open>Search by name\<close>

subsection \<open>Substrings\<close>



subsection \<open>Lower case of ASCII text\<close>













subsection \<open>The result of a search\<close>









section \<open>Lookup by owner\<close>

text \<open>
  Claim C7. \<^verbatim>\<open>getDoctorByOwner\<close> and \<^verbatim>\<open>getPatientByOwner\<close> compare the textual form of
  each stored owner with that of the caller. When no stored record matches they return
  \<open>NotFound\<close>. Otherwise they return one record: the first match in the order of the
  store's values, whatever matches follow it.
\<close>

theorem getByOwner_first_match:
  "((\<forall>d \<in> set (values_map (Doctors s)). toText (Doctor.owner d) \<noteq> toText (caller rt)) \<longrightarrow>
      getDoctorByOwner rt s
        = Inl (NotFound (''Doctor profile for owner='' @ toText (caller rt) @ '' not found'')))
   \<and> (values_map (Doctors s) = pre @ d # post \<and>
      (\<forall>x \<in> set pre. toText (Doctor.owner x) \<noteq> toText (caller rt)) \<and>
      toText (Doctor.owner d) = toText (caller rt) \<longrightarrow>
      getDoctorByOwner rt s = Inr d)
   \<and> ((\<forall>p \<in> set (values_map (Patients s)). toText (Patient.owner p) \<noteq> toText (caller rt)) \<longrightarrow>
      getPatientByOwner rt s
        = Inl (NotFound (''Patient profile for owner='' @ toText (caller rt) @ '' not found'')))
   \<and> (values_map (Patients s) = pre' @ p # post' \<and>
      (\<forall>x \<in> set pre'. toText (Patient.owner x) \<noteq> toText (caller rt)) \<and>
      toText (Patient.owner p) = toText (caller rt) \<longrightarrow>
      getPatientByOwner rt s = Inr p)"
proof -
  have "getDoctorByOwner rt s = Inr d"
    if "values_map (Doctors s) = pre @ d # post"
      and "\<forall>x \<in> set pre. toText (Doctor.owner x) \<noteq> toText (caller rt)"
      and "toText (Doctor.owner d) = toText (caller rt)"
    using that by (simp add: getDoctorByOwner_def)
  moreover have "getPatientByOwner rt s = Inr p"
    if "values_map (Patients s) = pre' @ p # post'"
      and "\<forall>x \<in> set pre'. toText (Patient.owner x) \<noteq> toText (caller rt)"
      and "toText (Patient.owner p) = toText (caller rt)"
    using that by (simp add: getPatientByOwner_def)
  moreover have "getDoctorByOwner rt s
        = Inl (NotFound (''Doctor profile for owner='' @ toText (caller rt) @ '' not found''))"
    if "\<forall>d \<in> set (values_map (Doctors s)). toText (Doctor.owner d) \<noteq> toText (caller rt)"
    using that by (simp add: getDoctorByOwner_def filter_empty_conv)
  moreover have "getPatientByOwner rt s
        = Inl (NotFound (''Patient profile for owner='' @ toText (caller rt) @ '' not found''))"
    if "\<forall>p \<in> set (values_map (Patients s)). toText (Patient.owner p) \<noteq> toText (caller rt)"
    using that by (simp add: getPatientByOwner_def filter_empty_conv)
  ultimately show ?thesis
    by blast
qed

theorem getByOwner_first_match_witness:
  "(values_map (Doctors clinic) = [] @ dr_lee # [john_doe, jane_roe] \<and>
      toText (Doctor.owner dr_lee) = toText P1 \<and> toText (Doctor.owner john_doe) = toText P1 \<and>
      getDoctorByOwner \<lparr>caller = P1, uuidv4 = ''u-1''\<rparr> clinic = Inr dr_lee)
   \<and> (values_map (Doctors clinic) = [dr_lee, john_doe] @ jane_roe # [] \<and>
      toText (Doctor.owner dr_lee) \<noteq> toText P2 \<and>
      toText (Doctor.owner john_doe) \<noteq> toText P2 \<and>
      toText (Doctor.owner jane_roe) = toText P2 \<and>
      getDoctorByOwner \<lparr>caller = P2, uuidv4 = ''u-1''\<rparr> clinic = Inr jane_roe)
   \<and> (values_map (Doctors clinic) = [dr_lee, john_doe, jane_roe] \<and>
      toText (Doctor.owner dr_lee) \<noteq> toText (Principal ''un4fu-tqaaa-aaaab-qadjq-cai'') \<and>
      toText (Doctor.owner john_doe) \<noteq> toText (Principal ''un4fu-tqaaa-aaaab-qadjq-cai'') \<and>
      toText (Doctor.owner jane_roe) \<noteq> toText (Principal ''un4fu-tqaaa-aaaab-qadjq-cai'') \<and>
      getDoctorByOwner \<lparr>caller = Principal ''un4fu-tqaaa-aaaab-qadjq-cai'', uuidv4 = ''u-1''\<rparr>
          clinic
        = Inl (NotFound ''Doctor profile for owner=un4fu-tqaaa-aaaab-qadjq-cai not found''))
   \<and> (values_map (Patients clinic) = [] @ ann # [ben] \<and>
      toText (Patient.owner ann) = toText P1 \<and> toText (Patient.owner ben) = toText P1 \<and>
      getPatientByOwner \<lparr>caller = P1, uuidv4 = ''u-1''\<rparr> clinic = Inr ann)
   \<and> (values_map (Patients clinic) = [ann, ben] \<and>
      toText (Patient.owner ann) \<noteq> toText P2 \<and> toText (Patient.owner ben) \<noteq> toText P2 \<and>
      getPatientByOwner \<lparr>caller = P2, uuidv4 = ''u-1''\<rparr> clinic
        = Inl (NotFound ''Patient profile for owner=rdmx6-jaaaa-aaaaa-aaadq-cai not found''))"
proof -
  have docs: "values_map (Doctors clinic) = [dr_lee, john_doe, jane_roe]"
    and pats: "values_map (Patients clinic) = [ann, ben]"
    by (simp_all add: clinic_def values_map_def)
  have owners: "toText (Doctor.owner dr_lee) = toText P1"
    "toText (Doctor.owner john_doe) = toText P1"
    "toText (Doctor.owner jane_roe) = toText P2"
    "toText (Patient.owner ann) = toText P1" "toText (Patient.owner ben) = toText P1"
    "toText P1 \<noteq> toText P2"
    "toText P1 \<noteq> toText (Principal ''un4fu-tqaaa-aaaab-qadjq-cai'')"
    "toText P2 \<noteq> toText (Principal ''un4fu-tqaaa-aaaab-qadjq-cai'')"
    by (simp_all add: example_defs)
  show ?thesis
    using docs pats owners
      getByOwner_first_match
        [where s = clinic and rt = "\<lparr>caller = P1, uuidv4 = ''u-1''\<rparr>"
           and pre = "[]" and d = dr_lee and post = "[john_doe, jane_roe]"
           and pre' = "[]" and p = ann and post' = "[ben]"]
      getByOwner_first_match
        [where s = clinic and rt = "\<lparr>caller = P2, uuidv4 = ''u-1''\<rparr>"
           and pre = "[dr_lee, john_doe]" and d = jane_roe and post = "[]"]
      getByOwner_first_match
        [where s = clinic
           and rt = "\<lparr>caller = Principal ''un4fu-tqaaa-aaaab-qadjq-cai'', uuidv4 = ''u-1''\<rparr>"]
    by (simp add: P2_def)
qed

section \<open>Updating a record\<close>

lemma updatePatient_present:
  assumes "get_map (Patients s) i = Some pat"
  shows "updatePatient rt s i payload
      = (Inr (pat\<lparr>Patient.name := CreatePatientPayload.name payload,
                  Patient.age := CreatePatientPayload.age payload\<rparr>),
         s\<lparr>Patients := insert_map i
              (pat\<lparr>Patient.name := CreatePatientPayload.name payload,
                   Patient.age := CreatePatientPayload.age payload\<rparr>) (Patients s)\<rparr>)"
  using assms by (simp add: updatePatient_def Let_def)

lemma updateDoctor_present:
  assumes "get_map (Doctors s) i = Some doc"
  shows "updateDoctor rt s i payload
      = (Inr (doc\<lparr>Doctor.name := CreateDoctorPayload.name payload,
                  Doctor.department_id := CreateDoctorPayload.department_id payload,
                  Doctor.image := CreateDoctorPayload.image payload\<rparr>),
         s\<lparr>Doctors := insert_map i
              (doc\<lparr>Doctor.name := CreateDoctorPayload.name payload,
                   Doctor.department_id := CreateDoctorPayload.department_id payload,
                   Doctor.image := CreateDoctorPayload.image payload\<rparr>) (Doctors s)\<rparr>)"
  using assms by (simp add: updateDoctor_def Let_def)

lemma update_absent:
  "get_map (Patients s) i = None \<Longrightarrow>
     updatePatient rt s i pp = (Inl (NotFound (''Patient with id='' @ i @ '' not found'')), s)"
  "get_map (Doctors s) i = None \<Longrightarrow>
     updateDoctor rt s i dp = (Inl (NotFound (''Doctor with id='' @ i @ '' not found'')), s)"
  by (simp_all add: updatePatient_def updateDoctor_def)

lemma decode_CreatePatientPayload_missing:
  "map_of arg ''name'' = None \<or> map_of arg ''age'' = None \<Longrightarrow>
     decode_CreatePatientPayload arg = None"
  by (auto simp add: decode_CreatePatientPayload_def split: option.splits CandidValue.splits)

lemma decode_CreateDoctorPayload_missing:
  "map_of arg ''name'' = None \<or> map_of arg ''department_id'' = None
     \<or> map_of arg ''image'' = None \<Longrightarrow>
     decode_CreateDoctorPayload arg = None"
  by (auto simp add: decode_CreateDoctorPayload_def split: option.splits CandidValue.splits)

text \<open>
  Claim C4, amended. For an id that is present, \<^verbatim>\<open>updatePatient\<close> returns and stores,
  under the same id, the existing record with the name and age of the payload and with
  its id and owner kept; \<^verbatim>\<open>updateDoctor\<close> does the same with the name, department_id
  and image of the payload. Every other entry and every other store is unchanged. For an
  id that is absent both return \<open>NotFound\<close> and change nothing. A payload always carries
  all of its declared fields: an argument that leaves one out is rejected when it is
  decoded, and the method body does not run.
\<close>

theorem update_overwrites_payload_fields:
  "(get_map (Patients s) i = Some pat \<longrightarrow>
      (\<exists>r s'. updatePatient rt s i pp = (Inr r, s') \<and>
         r = \<lparr>Patient.id = Patient.id pat, Patient.owner = Patient.owner pat,
              Patient.name = CreatePatientPayload.name pp,
              Patient.age = CreatePatientPayload.age pp\<rparr> \<and>
         s' = s\<lparr>Patients := Patients s'\<rparr> \<and>
         (\<forall>k. get_map (Patients s') k = (if k = i then Some r else get_map (Patients s) k))))
   \<and> (get_map (Patients s) i = None \<longrightarrow>
      updatePatient rt s i pp = (Inl (NotFound (''Patient with id='' @ i @ '' not found'')), s))
   \<and> (get_map (Doctors s) j = Some doc \<longrightarrow>
      (\<exists>r s'. updateDoctor rt s j dp = (Inr r, s') \<and>
         r = \<lparr>Doctor.id = Doctor.id doc, Doctor.owner = Doctor.owner doc,
              Doctor.name = CreateDoctorPayload.name dp,
              Doctor.department_id = CreateDoctorPayload.department_id dp,
              Doctor.image = CreateDoctorPayload.image dp\<rparr> \<and>
         s' = s\<lparr>Doctors := Doctors s'\<rparr> \<and>
         (\<forall>k. get_map (Doctors s') k = (if k = j then Some r else get_map (Doctors s) k))))
   \<and> (get_map (Doctors s) j = None \<longrightarrow>
      updateDoctor rt s j dp = (Inl (NotFound (''Doctor with id='' @ j @ '' not found'')), s))
   \<and> (map_of arg ''name'' = None \<or> map_of arg ''age'' = None \<longrightarrow>
      call_updatePatient rt s i arg = None)
   \<and> (map_of arg' ''name'' = None \<or> map_of arg' ''department_id'' = None
        \<or> map_of arg' ''image'' = None \<longrightarrow>
      call_updateDoctor rt s j arg' = None)"
proof -
  have "\<exists>r s'. updatePatient rt s i pp = (Inr r, s') \<and>
         r = \<lparr>Patient.id = Patient.id pat, Patient.owner = Patient.owner pat,
              Patient.name = CreatePatientPayload.name pp,
              Patient.age = CreatePatientPayload.age pp\<rparr> \<and>
         s' = s\<lparr>Patients := Patients s'\<rparr> \<and>
         (\<forall>k. get_map (Patients s') k = (if k = i then Some r else get_map (Patients s) k))"
    if "get_map (Patients s) i = Some pat"
    using updatePatient_present [OF that, of rt pp] by (cases pat) (simp add: get_insert_map)
  moreover have "\<exists>r s'. updateDoctor rt s j dp = (Inr r, s') \<and>
         r = \<lparr>Doctor.id = Doctor.id doc, Doctor.owner = Doctor.owner doc,
              Doctor.name = CreateDoctorPayload.name dp,
              Doctor.department_id = CreateDoctorPayload.department_id dp,
              Doctor.image = CreateDoctorPayload.image dp\<rparr> \<and>
         s' = s\<lparr>Doctors := Doctors s'\<rparr> \<and>
         (\<forall>k. get_map (Doctors s') k = (if k = j then Some r else get_map (Doctors s) k))"
    if "get_map (Doctors s) j = Some doc"
    using updateDoctor_present [OF that, of rt dp] by (cases doc) (simp add: get_insert_map)
  moreover have "call_updatePatient rt s i arg = None"
    if "map_of arg ''name'' = None \<or> map_of arg ''age'' = None"
    using decode_CreatePatientPayload_missing [OF that] by (simp add: call_updatePatient_def)
  moreover have "call_updateDoctor rt s j arg' = None"
    if "map_of arg' ''name'' = None \<or> map_of arg' ''department_id'' = None
        \<or> map_of arg' ''image'' = None"
    using decode_CreateDoctorPayload_missing [OF that] by (simp add: call_updateDoctor_def)
  ultimately show ?thesis
    using update_absent(1) [of s i rt pp] update_absent(2) [of s j rt dp]
    by blast
qed

theorem update_overwrites_payload_fields_witness:
  "(get_map (Patients clinic) ''Pat1'' = Some ann \<and>
      updatePatient \<lparr>caller = P2, uuidv4 = ''u-1''\<rparr> clinic ''Pat1''
          \<lparr>CreatePatientPayload.name = ''Ann'', CreatePatientPayload.age = 40\<rparr>
        = (Inr \<lparr>Patient.id = ''Pat1'', Patient.owner = P1, Patient.name = ''Ann'',
                Patient.age = 40\<rparr>,
           clinic\<lparr>Patients :=
             [(''Pat1'', \<lparr>Patient.id = ''Pat1'', Patient.owner = P1, Patient.name = ''Ann'',
                          Patient.age = 40\<rparr>),
              (''Pat2'', ben)]\<rparr>))
   \<and> (get_map (Patients clinic) ''Pat9'' = None \<and>
      updatePatient \<lparr>caller = P2, uuidv4 = ''u-1''\<rparr> clinic ''Pat9''
          \<lparr>CreatePatientPayload.name = ''Ann'', CreatePatientPayload.age = 40\<rparr>
        = (Inl (NotFound ''Patient with id=Pat9 not found''), clinic))
   \<and> (get_map (Doctors clinic) ''Doc1'' = Some dr_lee \<and>
      updateDoctor \<lparr>caller = P2, uuidv4 = ''u-1''\<rparr> clinic ''Doc1''
          \<lparr>CreateDoctorPayload.name = ''Dr. Lee'', CreateDoctorPayload.department_id = ''D2'',
           CreateDoctorPayload.image = ''new.png''\<rparr>
        = (Inr \<lparr>Doctor.id = ''Doc1'', Doctor.owner = P1, Doctor.name = ''Dr. Lee'',
                Doctor.department_id = ''D2'', Doctor.image = ''new.png''\<rparr>,
           clinic\<lparr>Doctors :=
             [(''Doc1'', \<lparr>Doctor.id = ''Doc1'', Doctor.owner = P1, Doctor.name = ''Dr. Lee'',
                          Doctor.department_id = ''D2'', Doctor.image = ''new.png''\<rparr>),
              (''Doc2'', john_doe), (''Doc3'', jane_roe)]\<rparr>))
   \<and> (get_map (Doctors clinic) ''Doc9'' = None \<and>
      updateDoctor \<lparr>caller = P2, uuidv4 = ''u-1''\<rparr> clinic ''Doc9''
          \<lparr>CreateDoctorPayload.name = ''Dr. Lee'', CreateDoctorPayload.department_id = ''D2'',
           CreateDoctorPayload.image = ''new.png''\<rparr>
        = (Inl (NotFound ''Doctor with id=Doc9 not found''), clinic))
   \<and> (map_of [(''age'', Nat64 40)] ''name'' = None \<and>
      call_updatePatient \<lparr>caller = P2, uuidv4 = ''u-1''\<rparr> clinic ''Pat1'' [(''age'', Nat64 40)]
        = None)
   \<and> (map_of [(''name'', Text ''Dr. Lee'')] ''image'' = None \<and>
      call_updateDoctor \<lparr>caller = P2, uuidv4 = ''u-1''\<rparr> clinic ''Doc1''
          [(''name'', Text ''Dr. Lee'')]
        = None)"
proof -
  have present: "get_map (Patients clinic) ''Pat1'' = Some ann"
    "get_map (Doctors clinic) ''Doc1'' = Some dr_lee"
    and absent: "get_map (Patients clinic) ''Pat9'' = None"
    "get_map (Doctors clinic) ''Doc9'' = None"
    and missing: "map_of [(''age'', Nat64 40)] ''name'' = None"
    "map_of [(''name'', Text ''Dr. Lee'')] ''image'' = None"
    by (simp_all add: clinic_def)
  have stores: "Patient.id ann = ''Pat1''" "Patient.owner ann = P1"
    "Doctor.id dr_lee = ''Doc1''" "Doctor.owner dr_lee = P1"
    by (simp_all add: ann_def dr_lee_def)
  have ins: "insert_map ''Pat1'' v (Patients clinic) = [(''Pat1'', v), (''Pat2'', ben)]"
    "insert_map ''Doc1'' w (Doctors clinic)
       = [(''Doc1'', w), (''Doc2'', john_doe), (''Doc3'', jane_roe)]" for v w
    by (simp_all add: clinic_def)
  note inst = update_overwrites_payload_fields
    [where s = clinic and rt = "\<lparr>caller = P2, uuidv4 = ''u-1''\<rparr>"
       and pp = "\<lparr>CreatePatientPayload.name = ''Ann'', CreatePatientPayload.age = 40\<rparr>"
       and dp = "\<lparr>CreateDoctorPayload.name = ''Dr. Lee'',
                  CreateDoctorPayload.department_id = ''D2'',
                  CreateDoctorPayload.image = ''new.png''\<rparr>"
       and arg = "[(''age'', Nat64 40)]" and arg' = "[(''name'', Text ''Dr. Lee'')]"]
  show ?thesis
    using present absent missing
      inst [where i = "''Pat1''" and pat = ann and j = "''Doc1''" and doc = dr_lee]
      inst [where i = "''Pat9''" and j = "''Doc9''"]
      updatePatient_present [OF present(1)] updateDoctor_present [OF present(2)]
    by (simp add: stores ins)
qed

text \<open>
  Claim C4 as stated fails in its example. The argument \<open>{age: 40}\<close> has no name, so it is
  not a \<^verbatim>\<open>CreatePatientPayload\<close>: the call is rejected and the patient keeps the age 30.
  A payload that sets the age to 40 carries a name as well, and that name replaces the
  stored one.
\<close>

theorem updatePatient_age_only_counterexample:
  "call_updatePatient \<lparr>caller = P1, uuidv4 = ''u-1''\<rparr> clinic ''Pat1'' [(''age'', Nat64 40)] = None
   \<and> Patient.name ann = ''Ann''
   \<and> updatePatient \<lparr>caller = P1, uuidv4 = ''u-1''\<rparr> clinic ''Pat1''
        \<lparr>CreatePatientPayload.name = ''Bob'', CreatePatientPayload.age = 40\<rparr>
      = (Inr \<lparr>Patient.id = ''Pat1'', Patient.owner = P1, Patient.name = ''Bob'',
              Patient.age = 40\<rparr>,
         clinic\<lparr>Patients :=
           [(''Pat1'', \<lparr>Patient.id = ''Pat1'', Patient.owner = P1, Patient.name = ''Bob'',
                        Patient.age = 40\<rparr>),
            (''Pat2'', ben)]\<rparr>)"
  by (simp add: call_updatePatient_def decode_CreatePatientPayload_def updatePatient_def
      clinic_def ann_def Let_def)

section \<open>The owner of a record\<close>

lemma call_updatePatient_keeps_owner:
  assumes "get_map (Patients s) i = Some pat"
    and "call_updatePatient rt s i arg = Some (res, s')"
  shows "\<exists>r. res = Inr r \<and> get_map (Patients s') i = Some r \<and>
           Patient.owner r = Patient.owner pat \<and> Patient.id r = Patient.id pat"
  using assms
  by (auto simp add: call_updatePatient_def updatePatient_def Let_def get_insert_map
      split: option.splits)

lemma call_updateDoctor_keeps_owner:
  assumes "get_map (Doctors s) i = Some doc"
    and "call_updateDoctor rt s i arg = Some (res, s')"
  shows "\<exists>r. res = Inr r \<and> get_map (Doctors s') i = Some r \<and>
           Doctor.owner r = Doctor.owner doc \<and> Doctor.id r = Doctor.id doc"
  using assms
  by (auto simp add: call_updateDoctor_def updateDoctor_def Let_def get_insert_map
      split: option.splits)

text \<open>
  Claim C5, amended. No update changes the owner. The payload types of \<^verbatim>\<open>updatePatient\<close>
  and \<^verbatim>\<open>updateDoctor\<close> have no owner field, and an owner field sent with the argument is
  skipped when the argument is decoded. So for every argument that is accepted, with or
  without an owner field, the record returned and stored for an existing id keeps the
  owner and the id of the record it replaces.
\<close>

theorem update_keeps_owner:
  "(get_map (Patients s) i = Some pat \<and> call_updatePatient rt s i arg = Some (res, s') \<longrightarrow>
      (\<exists>r. res = Inr r \<and> get_map (Patients s') i = Some r \<and>
         Patient.owner r = Patient.owner pat \<and> Patient.id r = Patient.id pat))
   \<and> (get_map (Doctors s) j = Some doc \<and> call_updateDoctor rt s j arg' = Some (res', s'') \<longrightarrow>
      (\<exists>r. res' = Inr r \<and> get_map (Doctors s'') j = Some r \<and>
         Doctor.owner r = Doctor.owner doc \<and> Doctor.id r = Doctor.id doc))"
  using call_updatePatient_keeps_owner [of s i pat rt arg res s']
    call_updateDoctor_keeps_owner [of s j doc rt arg' res' s'']
  by blast

theorem update_keeps_owner_witness:
  "(get_map (Patients clinic) ''Pat1'' = Some ann \<and> Patient.owner ann = P1 \<and>
      call_updatePatient \<lparr>caller = P2, uuidv4 = ''u-1''\<rparr> clinic ''Pat1''
          [(''name'', Text ''Ann''), (''age'', Nat64 40), (''owner'', PrincipalValue P2)]
        = Some (Inr (ann\<lparr>Patient.age := 40\<rparr>),
                clinic\<lparr>Patients := [(''Pat1'', ann\<lparr>Patient.age := 40\<rparr>), (''Pat2'', ben)]\<rparr>) \<and>
      Patient.owner (ann\<lparr>Patient.age := 40\<rparr>) = P1)
   \<and> (get_map (Doctors clinic) ''Doc1'' = Some dr_lee \<and> Doctor.owner dr_lee = P1 \<and>
      call_updateDoctor \<lparr>caller = P2, uuidv4 = ''u-1''\<rparr> clinic ''Doc1''
          [(''owner'', PrincipalValue P2), (''name'', Text ''Dr. Lee''),
           (''department_id'', Text ''D1''), (''image'', Text ''new.png'')]
        = Some (Inr (dr_lee\<lparr>Doctor.image := ''new.png''\<rparr>),
                clinic\<lparr>Doctors := [(''Doc1'', dr_lee\<lparr>Doctor.image := ''new.png''\<rparr>),
                                    (''Doc2'', john_doe), (''Doc3'', jane_roe)]\<rparr>) \<and>
      Doctor.owner (dr_lee\<lparr>Doctor.image := ''new.png''\<rparr>) = P1)"
proof -
  have present: "get_map (Patients clinic) ''Pat1'' = Some ann"
    "get_map (Doctors clinic) ''Doc1'' = Some dr_lee"
    by (simp_all add: clinic_def)
  have pat: "call_updatePatient \<lparr>caller = P2, uuidv4 = ''u-1''\<rparr> clinic ''Pat1''
          [(''name'', Text ''Ann''), (''age'', Nat64 40), (''owner'', PrincipalValue P2)]
        = Some (Inr (ann\<lparr>Patient.age := 40\<rparr>),
                clinic\<lparr>Patients := [(''Pat1'', ann\<lparr>Patient.age := 40\<rparr>), (''Pat2'', ben)]\<rparr>)"
    by (simp add: call_updatePatient_def decode_CreatePatientPayload_def updatePatient_def
        Let_def clinic_def ann_def)
  have doc: "call_updateDoctor \<lparr>caller = P2, uuidv4 = ''u-1''\<rparr> clinic ''Doc1''
          [(''owner'', PrincipalValue P2), (''name'', Text ''Dr. Lee''),
           (''department_id'', Text ''D1''), (''image'', Text ''new.png'')]
        = Some (Inr (dr_lee\<lparr>Doctor.image := ''new.png''\<rparr>),
                clinic\<lparr>Doctors := [(''Doc1'', dr_lee\<lparr>Doctor.image := ''new.png''\<rparr>),
                                    (''Doc2'', john_doe), (''Doc3'', jane_roe)]\<rparr>)"
    by (simp add: call_updateDoctor_def decode_CreateDoctorPayload_def updateDoctor_def
        Let_def clinic_def dr_lee_def)
  have owners: "Patient.owner ann = P1" "Doctor.owner dr_lee = P1"
    by (simp_all add: ann_def dr_lee_def)
  show ?thesis
    using present pat doc owners
      update_keeps_owner
        [where s = clinic and rt = "\<lparr>caller = P2, uuidv4 = ''u-1''\<rparr>"
           and i = "''Pat1''" and pat = ann
           and arg = "[(''name'', Text ''Ann''), (''age'', Nat64 40),
                       (''owner'', PrincipalValue P2)]"
           and res = "Inr (ann\<lparr>Patient.age := 40\<rparr>)"
           and s' = "clinic\<lparr>Patients := [(''Pat1'', ann\<lparr>Patient.age := 40\<rparr>),
                                            (''Pat2'', ben)]\<rparr>"
           and j = "''Doc1''" and doc = dr_lee
           and arg' = "[(''owner'', PrincipalValue P2), (''name'', Text ''Dr. Lee''),
                        (''department_id'', Text ''D1''), (''image'', Text ''new.png'')]"
           and res' = "Inr (dr_lee\<lparr>Doctor.image := ''new.png''\<rparr>)"
           and s'' = "clinic\<lparr>Doctors := [(''Doc1'', dr_lee\<lparr>Doctor.image := ''new.png''\<rparr>),
                                            (''Doc2'', john_doe), (''Doc3'', jane_roe)]\<rparr>"]
    by simp
qed

text \<open>
  Claim C5 as stated: some update whose argument carries an owner field stores that owner
  in place of a different one. There is none, for patients and for doctors.
\<close>

theorem update_overwrites_owner_counterexample:
  "\<not> (\<exists>rt s i arg new_owner pat res s' r.
         map_of arg ''owner'' = Some (PrincipalValue new_owner) \<and>
         get_map (Patients s) i = Some pat \<and> new_owner \<noteq> Patient.owner pat \<and>
         call_updatePatient rt s i arg = Some (res, s') \<and>
         get_map (Patients s') i = Some r \<and> Patient.owner r = new_owner)
   \<and> \<not> (\<exists>rt s i arg new_owner doc res s' r.
         map_of arg ''owner'' = Some (PrincipalValue new_owner) \<and>
         get_map (Doctors s) i = Some doc \<and> new_owner \<noteq> Doctor.owner doc \<and>
         call_updateDoctor rt s i arg = Some (res, s') \<and>
         get_map (Doctors s') i = Some r \<and> Doctor.owner r = new_owner)"
proof (intro conjI notI)
  assume "\<exists>rt s i arg new_owner pat res s' r.
         map_of arg ''owner'' = Some (PrincipalValue new_owner) \<and>
         get_map (Patients s) i = Some pat \<and> new_owner \<noteq> Patient.owner pat \<and>
         call_updatePatient rt s i arg = Some (res, s') \<and>
         get_map (Patients s') i = Some r \<and> Patient.owner r = new_owner"
  then obtain rt s i arg new_owner pat res s' r where
    "get_map (Patients s) i = Some pat" "new_owner \<noteq> Patient.owner pat"
    "call_updatePatient rt s i arg = Some (res, s')"
    "get_map (Patients s') i = Some r" "Patient.owner r = new_owner"
    by blast
  with call_updatePatient_keeps_owner [of s i pat rt arg res s'] show False
    by auto
next
  assume "\<exists>rt s i arg new_owner doc res s' r.
         map_of arg ''owner'' = Some (PrincipalValue new_owner) \<and>
         get_map (Doctors s) i = Some doc \<and> new_owner \<noteq> Doctor.owner doc \<and>
         call_updateDoctor rt s i arg = Some (res, s') \<and>
         get_map (Doctors s') i = Some r \<and> Doctor.owner r = new_owner"
  then obtain rt s i arg new_owner doc res s' r where
    "get_map (Doctors s) i = Some doc" "new_owner \<noteq> Doctor.owner doc"
    "call_updateDoctor rt s i arg = Some (res, s')"
    "get_map (Doctors s') i = Some r" "Doctor.owner r = new_owner"
    by blast
  with call_updateDoctor_keeps_owner [of s i doc rt arg res s'] show False
    by auto
qed

section \<open>Availability of a doctor\<close>

lemma insert_map_same:
  assumes "wf_map m" and "get_map m k = Some v"
  shows "insert_map k v m = m"
  using assms
proof (induction m)
  case Nil
  then show ?case by simp
next
  case (Cons e m)
  obtain k' v' where e: "e = (k', v')" by (cases e)
  from Cons.prems(1) have lt: "\<forall>x \<in> set (map fst m). k' < x" and wf: "wf_map m"
    by (simp_all add: e wf_map_Cons)
  show ?case
  proof (cases "k = k'")
    case True
    with Cons.prems(2) show ?thesis by (simp add: e)
  next
    case False
    with Cons.prems(2) have g: "get_map m k = Some v" by (simp add: e)
    then have "(k, v) \<in> set m" by (rule get_map_present)
    then have "k \<in> set (map fst m)" by force
    with lt have "k' < k" by blast
    then have "\<not> k < k'" by simp
    with False Cons.IH [OF wf g] show ?thesis by (simp add: e)
  qed
qed

lemma updateDoctorAvailability_present:
  assumes "wf_map (Doctors s)" and "get_map (Doctors s) i = Some doc"
  shows "updateDoctorAvailability rt s i b = (Inr doc, s)"
proof -
  have "asDoctor \<lparr>Doctor.id = Doctor.id doc, Doctor.owner = Doctor.owner doc,
          Doctor.name = Doctor.name doc, Doctor.department_id = Doctor.department_id doc,
          Doctor.image = Doctor.image doc, available = b\<rparr> = doc"
    by (simp add: asDoctor_def)
  with assms show ?thesis
    by (simp add: updateDoctorAvailability_def Let_def insert_map_same)
qed

lemma updateDoctorAvailability_absent:
  "get_map (Doctors s) i = None \<Longrightarrow>
     updateDoctorAvailability rt s i b
       = (Inl (NotFound (''Doctor with id='' @ i @ '' not found'')), s)"
  by (simp add: updateDoctorAvailability_def)

text \<open>
  Claim C9 does not hold of the code. \<^verbatim>\<open>updateDoctorAvailability\<close> adds the field
  \<^verbatim>\<open>available\<close> to a copy of the stored doctor, but the store and the result are both
  typed \<^verbatim>\<open>Doctor\<close>, a record without that field, so the value is written nowhere. For
  the doctor \<open>Doc1\<close> of the example state the call returns the stored record and leaves
  the state as it was, with \<open>True\<close> and with \<open>False\<close> alike.
\<close>

theorem updateDoctorAvailability_drops_available:
  "updateDoctorAvailability \<lparr>caller = P1, uuidv4 = ''u-1''\<rparr> clinic ''Doc1'' True
     = (Inr dr_lee, clinic)
   \<and> updateDoctorAvailability \<lparr>caller = P1, uuidv4 = ''u-1''\<rparr> clinic ''Doc1'' False
     = (Inr dr_lee, clinic)
   \<and> getDoctorById \<lparr>caller = P1, uuidv4 = ''u-2''\<rparr> clinic ''Doc1'' = Inr dr_lee"
  by (simp add: updateDoctorAvailability_def asDoctor_def getDoctorById_def Let_def clinic_def
      dr_lee_def)

section \<open>The caller in update and delete\<close>

text \<open>
  Claim C10. \<^verbatim>\<open>updateDoctor\<close>, \<^verbatim>\<open>updatePatient\<close>, \<^verbatim>\<open>updateDoctorAvailability\<close>,
  \<^verbatim>\<open>deleteDoctor\<close>, \<^verbatim>\<open>deletePatient\<close> and \<^verbatim>\<open>deleteDepartment\<close> give the same result and
  the same new state whoever calls them: with the same state and arguments, two runtimes
  \<open>rt1\<close> and \<open>rt2\<close> (two callers) cannot be told apart. The owner of the stored record
  is not compared with anything: in the example state the caller \<open>P2\<close> deletes the doctor
  that \<open>P1\<close> owns.
\<close>

theorem update_delete_ignore_caller:
  "updateDoctor rt1 s i dp = updateDoctor rt2 s i dp
   \<and> updatePatient rt1 s i pp = updatePatient rt2 s i pp
   \<and> updateDoctorAvailability rt1 s i b = updateDoctorAvailability rt2 s i b
   \<and> deleteDoctor rt1 s i = deleteDoctor rt2 s i
   \<and> deletePatient rt1 s i = deletePatient rt2 s i
   \<and> deleteDepartment rt1 s i = deleteDepartment rt2 s i
   \<and> Doctor.owner dr_lee = P1 \<and> P1 \<noteq> P2
   \<and> deleteDoctor \<lparr>caller = P2, uuidv4 = ''u-1''\<rparr> clinic ''Doc1''
       = (Inr (Success ''Doctor with id=Doc1 deleted successfully''),
          clinic\<lparr>Doctors := [(''Doc2'', john_doe), (''Doc3'', jane_roe)]\<rparr>)"
  by (simp add: updateDoctor_def updatePatient_def updateDoctorAvailability_def
      deleteDoctor_def deletePatient_def deleteDepartment_def clinic_def dr_lee_def
      P1_def P2_def)

end
